theory Spec2Isabelle
  imports Complex_Main
begin

section \<open>Three-dimensional arrays\<close>

text \<open>
  The arrays of the program are three-dimensional NumPy arrays of floating-point numbers.
  An array is modelled by its shape and its index function; the entries are real numbers,
  so rounding, infinities and NaN are outside the model. Boolean arrays (the flow masks)
  are arrays whose entries are 1 (True) and 0 (False), which is how NumPy treats them in
  arithmetic.
\<close>

datatype arr = Arr (nx: nat) (ny: nat) (nz: nat) (el: "nat \<Rightarrow> nat \<Rightarrow> nat \<Rightarrow> real")

datatype axis = AX | AY | AZ

text \<open>
  The errors the code can raise: a shape mismatch in an array operation (NumPy's
  ValueError) and the use of a local variable that no branch has assigned.
\<close>

datatype error = ValueError | UnboundLocalError string

text \<open>The value of an expression: the exception it raises, or an array.\<close>

datatype res = Err error | Ok arr

fun dim :: "axis \<Rightarrow> arr \<Rightarrow> nat" where
  "dim AX a = nx a"
| "dim AY a = ny a"
| "dim AZ a = nz a"

definition same_shape :: "arr \<Rightarrow> arr \<Rightarrow> bool" where
  "same_shape a b \<longleftrightarrow> nx a = nx b \<and> ny a = ny b \<and> nz a = nz b"

subsection \<open>Elementwise operations with broadcasting\<close>

text \<open>
  NumPy's broadcasting rule for one dimension: equal extents, or one of them is 1.
\<close>

definition bdim :: "nat \<Rightarrow> nat \<Rightarrow> nat option" where
  "bdim m n = (if m = n then Some m else if m = 1 then Some n
               else if n = 1 then Some m else None)"

text \<open>The index read from an operand of extent \<open>m\<close> when the other has extent \<open>n\<close>.\<close>

definition bidx :: "nat \<Rightarrow> nat \<Rightarrow> nat \<Rightarrow> nat" where
  "bidx m n i = (if m = 1 \<and> n \<noteq> 1 then 0 else i)"

definition lift2 :: "(real \<Rightarrow> real \<Rightarrow> real) \<Rightarrow> res \<Rightarrow> res \<Rightarrow> res" where
  "lift2 f x y =
     (case x of Err e \<Rightarrow> Err e | Ok a \<Rightarrow>
      (case y of Err e \<Rightarrow> Err e | Ok b \<Rightarrow>
       (case (bdim (nx a) (nx b), bdim (ny a) (ny b), bdim (nz a) (nz b)) of
          (Some p, Some q, Some r) \<Rightarrow>
            Ok (Arr p q r (\<lambda>i j k.
              f (el a (bidx (nx a) (nx b) i) (bidx (ny a) (ny b) j) (bidx (nz a) (nz b) k))
                (el b (bidx (nx b) (nx a) i) (bidx (ny b) (ny a) j) (bidx (nz b) (nz a) k))))
        | _ \<Rightarrow> Err ValueError)))"

definition lift1 :: "(real \<Rightarrow> real) \<Rightarrow> res \<Rightarrow> res" where
  "lift1 f x = (case x of Err e \<Rightarrow> Err e
                | Ok a \<Rightarrow> Ok (Arr (nx a) (ny a) (nz a) (\<lambda>i j k. f (el a i j k))))"

text \<open>A Python scalar in an array expression: it broadcasts against every shape.\<close>

definition sc :: "real \<Rightarrow> res" where
  "sc c = Ok (Arr 1 1 1 (\<lambda>i j k. c))"

instantiation res :: "{plus, minus, times, inverse, abs}"
begin
definition plus_res :: "res \<Rightarrow> res \<Rightarrow> res" where "plus_res = lift2 (+)"
definition minus_res :: "res \<Rightarrow> res \<Rightarrow> res" where "minus_res = lift2 (-)"
definition times_res :: "res \<Rightarrow> res \<Rightarrow> res" where "times_res = lift2 (*)"
definition divide_res :: "res \<Rightarrow> res \<Rightarrow> res" where "divide_res = lift2 (/)"
definition inverse_res :: "res \<Rightarrow> res" where "inverse_res = lift1 inverse"
definition abs_res :: "res \<Rightarrow> res" where "abs_res = lift1 abs"
instance ..
end

text \<open>
  An in-place operation \<open>x op= y\<close> and the assignment \<open>x[:] = y\<close>: the right-hand side
  must broadcast to the shape of the target, which keeps its shape.
\<close>

definition fits :: "arr \<Rightarrow> arr \<Rightarrow> bool" where
  "fits b a \<longleftrightarrow> (nx b = nx a \<or> nx b = 1) \<and> (ny b = ny a \<or> ny b = 1) \<and> (nz b = nz a \<or> nz b = 1)"

definition inplace :: "(real \<Rightarrow> real \<Rightarrow> real) \<Rightarrow> res \<Rightarrow> res \<Rightarrow> res" where
  "inplace f x y =
     (case x of Err e \<Rightarrow> Err e | Ok a \<Rightarrow>
      (case y of Err e \<Rightarrow> Err e | Ok b \<Rightarrow>
       if fits b a then lift2 f (Ok a) (Ok b) else Err ValueError))"

subsection \<open>Slices and concatenation\<close>

text \<open>
  A bound \<open>i\<close> of a Python slice over an axis of extent \<open>n\<close>: a negative bound counts from
  the end, and every bound is clipped to the range from 0 to \<open>n\<close>.
\<close>

definition pybound :: "nat \<Rightarrow> int \<Rightarrow> nat" where
  "pybound n i = (if i < 0 then nat (int n + i) else min (nat i) n)"

text \<open>Start and length of the slice \<open>[lo:hi]\<close>; \<open>None\<close> is an omitted bound.\<close>

definition pyslice :: "nat \<Rightarrow> int option \<Rightarrow> int option \<Rightarrow> nat \<times> nat" where
  "pyslice n lo hi =
     (let s = (case lo of None \<Rightarrow> 0 | Some i \<Rightarrow> pybound n i);
          e = (case hi of None \<Rightarrow> n | Some i \<Rightarrow> pybound n i)
      in (s, e - s))"

definition sl :: "axis \<Rightarrow> int option \<Rightarrow> int option \<Rightarrow> res \<Rightarrow> res" where
  "sl ax lo hi x =
     (case x of Err e \<Rightarrow> Err e | Ok a \<Rightarrow>
      (let (s, n) = pyslice (dim ax a) lo hi in
       Ok (case ax of
             AX \<Rightarrow> Arr n (ny a) (nz a) (\<lambda>i j k. el a (s + i) j k)
           | AY \<Rightarrow> Arr (nx a) n (nz a) (\<lambda>i j k. el a i (s + j) k)
           | AZ \<Rightarrow> Arr (nx a) (ny a) n (\<lambda>i j k. el a i j (s + k)))))"

text \<open>
  The slice assignment \<open>x[lo:hi] = y\<close> along one axis (the other two axes in full):
  \<open>y\<close> must broadcast to the shape of the slice.
\<close>

definition set_sl :: "axis \<Rightarrow> int option \<Rightarrow> int option \<Rightarrow> res \<Rightarrow> res \<Rightarrow> res" where
  "set_sl ax lo hi x y =
     (case x of Err e \<Rightarrow> Err e | Ok a \<Rightarrow>
      (case y of Err e \<Rightarrow> Err e | Ok b \<Rightarrow>
       (let (s, n) = pyslice (dim ax a) lo hi in
        case ax of
          AX \<Rightarrow> if fits b (Arr n (ny a) (nz a) (el a))
                then Ok (Arr (nx a) (ny a) (nz a) (\<lambda>i j k.
                  if s \<le> i \<and> i < s + n
                  then el b (bidx (nx b) n (i - s)) (bidx (ny b) (ny a) j) (bidx (nz b) (nz a) k)
                  else el a i j k))
                else Err ValueError
        | AY \<Rightarrow> if fits b (Arr (nx a) n (nz a) (el a))
                then Ok (Arr (nx a) (ny a) (nz a) (\<lambda>i j k.
                  if s \<le> j \<and> j < s + n
                  then el b (bidx (nx b) (nx a) i) (bidx (ny b) n (j - s)) (bidx (nz b) (nz a) k)
                  else el a i j k))
                else Err ValueError
        | AZ \<Rightarrow> if fits b (Arr (nx a) (ny a) n (el a))
                then Ok (Arr (nx a) (ny a) (nz a) (\<lambda>i j k.
                  if s \<le> k \<and> k < s + n
                  then el b (bidx (nx b) (nx a) i) (bidx (ny b) (ny a) j) (bidx (nz b) n (k - s))
                  else el a i j k))
                else Err ValueError)))"

text \<open>
  Concatenation of two arrays along an axis: the other two extents must agree.
\<close>

definition cat2 :: "axis \<Rightarrow> res \<Rightarrow> res \<Rightarrow> res" where
  "cat2 ax x y =
     (case x of Err e \<Rightarrow> Err e | Ok a \<Rightarrow>
      (case y of Err e \<Rightarrow> Err e | Ok b \<Rightarrow>
       (case ax of
          AX \<Rightarrow> if ny a = ny b \<and> nz a = nz b
                then Ok (Arr (nx a + nx b) (ny a) (nz a) (\<lambda>i j k.
                       if i < nx a then el a i j k else el b (i - nx a) j k))
                else Err ValueError
        | AY \<Rightarrow> if nx a = nx b \<and> nz a = nz b
                then Ok (Arr (nx a) (ny a + ny b) (nz a) (\<lambda>i j k.
                       if j < ny a then el a i j k else el b i (j - ny a) k))
                else Err ValueError
        | AZ \<Rightarrow> if nx a = nx b \<and> ny a = ny b
                then Ok (Arr (nx a) (ny a) (nz a + nz b) (\<lambda>i j k.
                       if k < nz a then el a i j k else el b i j (k - nz a)))
                else Err ValueError)))"

text \<open>
  Modelled from the spec: the operators of \<open>pyns.operators\<close> are not among the source
  files. \<open>cat\<close> is the per-axis concatenation of a tuple of arrays, \<open>dif\<close> the per-axis
  difference of consecutive entries, \<open>avg\<close> the per-axis average of consecutive entries,
  \<open>mx\<close> and \<open>mn\<close> the elementwise maximum and minimum, \<open>lnot\<close> the logical complement of
  a mask, \<open>zeros\<close> and \<open>ones\<close> the constant arrays of a given shape.
\<close>

fun cat :: "axis \<Rightarrow> res list \<Rightarrow> res" where
  "cat ax [] = Err ValueError"
| "cat ax [x] = x"
| "cat ax (x # xs) = cat2 ax x (cat ax xs)"

definition dif :: "axis \<Rightarrow> res \<Rightarrow> res" where
  "dif ax x = sl ax (Some 1) None x - sl ax None (Some (- 1)) x"

definition avg :: "axis \<Rightarrow> res \<Rightarrow> res" where
  "avg ax x = (sl ax (Some 1) None x + sl ax None (Some (- 1)) x) * sc 0.5"

abbreviation "cat_x \<equiv> cat AX"
abbreviation "cat_y \<equiv> cat AY"
abbreviation "cat_z \<equiv> cat AZ"
abbreviation "dif_x \<equiv> dif AX"
abbreviation "dif_y \<equiv> dif AY"
abbreviation "dif_z \<equiv> dif AZ"
abbreviation "avg_x \<equiv> avg AX"
abbreviation "avg_y \<equiv> avg AY"
abbreviation "avg_z \<equiv> avg AZ"

definition mx :: "res \<Rightarrow> res \<Rightarrow> res" where
  "mx = lift2 max"

definition mn :: "res \<Rightarrow> res \<Rightarrow> res" where
  "mn = lift2 min"

definition mx3 :: "res \<Rightarrow> res \<Rightarrow> res \<Rightarrow> res" where
  "mx3 x y z = mx (mx x y) z"

definition mn3 :: "res \<Rightarrow> res \<Rightarrow> res \<Rightarrow> res" where
  "mn3 x y z = mn (mn x y) z"

definition zeros :: "res \<Rightarrow> res" where
  "zeros = lift1 (\<lambda>v. 0)"

definition ones :: "res \<Rightarrow> res" where
  "ones = lift1 (\<lambda>v. 1)"

text \<open>The mask \<open>x >= 0\<close> and the logical complement of a mask.\<close>

definition ge0 :: "res \<Rightarrow> res" where
  "ge0 = lift1 (\<lambda>v. if 0 \<le> v then 1 else 0)"

definition lnot :: "res \<Rightarrow> res" where
  "lnot = lift1 (\<lambda>v. if v = 0 then 1 else 0)"

text \<open>
  The masked assignment \<open>d[m(d)] = c\<close>, where the mask is an elementwise condition on
  the entries of \<open>d\<close> itself.
\<close>

definition fill_where :: "(real \<Rightarrow> bool) \<Rightarrow> real \<Rightarrow> res \<Rightarrow> res" where
  "fill_where m c = lift1 (\<lambda>v. if m v then c else v)"

text \<open>
  Statements run in order and the first exception ends the call: the value of a
  statement is handed to the rest of the body only when it did not raise.
\<close>

definition sthen :: "res \<Rightarrow> (res \<Rightarrow> error + 'a) \<Rightarrow> error + 'a" where
  "sthen s f = (case s of Err e \<Rightarrow> Inl e | Ok a \<Rightarrow> f (Ok a))"

section \<open>The limiter engine\<close>

text \<open>
  Lines 288-289 (and 302-303, 316-317) of advection.py: the two masked assignments that
  keep the consecutive differences away from zero. \<open>TINY\<close> is a constant of
  \<open>pyns.constants\<close>, which is not among the source files; it is a parameter here.
\<close>

definition clamp :: "real \<Rightarrow> res \<Rightarrow> res" where
  "clamp TINY d =
     fill_where (\<lambda>v. 0 \<le> v \<and> v < TINY) TINY
       (fill_where (\<lambda>v. - TINY < v \<and> v \<le> 0) (- TINY) d)"

text \<open>The full slice \<open>x[:,:,:]\<close>.\<close>

definition whole :: "res \<Rightarrow> res" where
  "whole = lift1 (\<lambda>v. v)"

section \<open>Fields, matrices and the local variables of advection\<close>

text \<open>
  Modelled from the spec: the constants of \<open>pyns.constants\<close> and the class of the
  unknowns are not among the source files. A placement tag is one of CENTER, X-FACE,
  Y-FACE, Z-FACE (\<open>C\<close>, \<open>X\<close>, \<open>Y\<close>, \<open>Z\<close>); Python lets a caller pass any other value, which
  is \<open>Unsupported\<close> here. \<open>X\<close>, \<open>Y\<close> and \<open>Z\<close> also index the periodicity triple. An
  unknown has its values, its values at the previous time step, its placement, its
  periodicity flags and six boundary arrays (West, East, South, North, Bottom, Top).
  A system matrix has a centre band and one band for each neighbour.
\<close>

datatype pos = C | X | Y | Z | Unsupported

datatype side = W | E | S | N | B | T

record unknown =
  val :: arr
  old :: arr
  pos :: pos
  per :: "pos \<Rightarrow> bool"
  bnd :: "side \<Rightarrow> arr"

record matrix =
  band_C :: arr
  band_W :: arr
  band_E :: arr
  band_S :: arr
  band_N :: arr
  band_B :: arr
  band_T :: arr

text \<open>
  The face arrays that the placement branches assign (lines 61-249). After a call with
  an unsupported placement none of them is bound: reading one raises UnboundLocalError.
\<close>

record faces =
  rho_x_fac :: res
  rho_y_fac :: res
  rho_z_fac :: res
  a_x_fac :: res
  a_y_fac :: res
  a_z_fac :: res
  del_x :: res
  del_y :: res
  del_z :: res
  u_fac :: res
  v_fac :: res
  w_fac :: res

text \<open>The differences, flow masks and gradient ratios of lines 276-336.\<close>

record gradients =
  d_x :: res
  d_y :: res
  d_z :: res
  r_x_we :: res
  r_x_ew :: res
  r_y_sn :: res
  r_y_ns :: res
  r_z_bt :: res
  r_z_tb :: res
  flow_we :: res
  flow_ew :: res
  flow_sn :: res
  flow_ns :: res
  flow_bt :: res
  flow_tb :: res
  r_x :: res
  r_y :: res
  r_z :: res

section \<open>Face reconstruction (lines 61-249)\<close>

text \<open>
  The two assignments that patch the boundary slots of a face array on a periodic
  axis, as in lines 80-81: the first slot takes the last but one, the last slot takes
  the second.
\<close>

definition patch :: "axis \<Rightarrow> res \<Rightarrow> (res \<Rightarrow> error + 'a) \<Rightarrow> error + 'a" where
  "patch ax a k =
     sthen (set_sl ax None (Some 1) a (sl ax (Some (- 2)) (Some (- 1)) a)) (\<lambda>a.
     sthen (set_sl ax (Some (- 1)) None a (sl ax (Some 1) (Some 2) a)) k)"

text \<open>The body of \<open>if per[..] == True\<close>: density, area and distance are patched in turn.\<close>

definition periodic :: "bool \<Rightarrow> axis \<Rightarrow> res \<Rightarrow> res \<Rightarrow> res \<Rightarrow>
    (res \<Rightarrow> res \<Rightarrow> res \<Rightarrow> error + 'a) \<Rightarrow> error + 'a" where
  "periodic p ax rho_fac a_fac del k =
     (if p = True then
        patch ax rho_fac (\<lambda>rho_fac. patch ax a_fac (\<lambda>a_fac. patch ax del (\<lambda>del.
        k rho_fac a_fac del)))
      else k rho_fac a_fac del)"

text \<open>The padded array \<open>cat((a[:1], m, a[-1:]))\<close> along an axis.\<close>

definition pad :: "axis \<Rightarrow> res \<Rightarrow> res \<Rightarrow> res" where
  "pad ax a m = cat ax [sl ax None (Some 1) a, m, sl ax (Some (- 1)) None a]"

text \<open>The distances \<open>cat((d[:1]*0.5, avg(d), d[-1:]*0.5))\<close> between cell centres.\<close>

definition dist :: "axis \<Rightarrow> res \<Rightarrow> res" where
  "dist ax d = cat ax [sl ax None (Some 1) d * sc 0.5, avg ax d, sl ax (Some (- 1)) None d * sc 0.5]"

definition faces_C :: "(pos \<Rightarrow> bool) \<Rightarrow> res \<Rightarrow> res \<Rightarrow> res \<Rightarrow> res \<Rightarrow> res \<Rightarrow> res \<Rightarrow> res \<Rightarrow>
    unknown \<Rightarrow> unknown \<Rightarrow> unknown \<Rightarrow> error + faces" where
  "faces_C pr rho sx sy sz dx dy dz uf vf wf' =
     sthen (pad AX rho (avg_x rho)) (\<lambda>rho_x_fac.
     sthen (pad AY rho (avg_y rho)) (\<lambda>rho_y_fac.
     sthen (pad AZ rho (avg_z rho)) (\<lambda>rho_z_fac.
     sthen (pad AX sx (avg_x sx)) (\<lambda>a_x_fac.
     sthen (pad AY sy (avg_y sy)) (\<lambda>a_y_fac.
     sthen (pad AZ sz (avg_z sz)) (\<lambda>a_z_fac.
     sthen (dist AX dx) (\<lambda>del_x.
     sthen (dist AY dy) (\<lambda>del_y.
     sthen (dist AZ dz) (\<lambda>del_z.
     periodic (pr X) AX rho_x_fac a_x_fac del_x (\<lambda>rho_x_fac a_x_fac del_x.
     periodic (pr Y) AY rho_y_fac a_y_fac del_y (\<lambda>rho_y_fac a_y_fac del_y.
     periodic (pr Z) AZ rho_z_fac a_z_fac del_z (\<lambda>rho_z_fac a_z_fac del_z.
     sthen (cat_x [Ok (bnd uf W), Ok (val uf), Ok (bnd uf E)]) (\<lambda>u_fac.
     sthen (cat_y [Ok (bnd vf S), Ok (val vf), Ok (bnd vf N)]) (\<lambda>v_fac.
     sthen (cat_z [Ok (bnd wf' B), Ok (val wf'), Ok (bnd wf' T)]) (\<lambda>w_fac.
     Inr \<lparr>rho_x_fac = rho_x_fac, rho_y_fac = rho_y_fac, rho_z_fac = rho_z_fac,
          a_x_fac = a_x_fac, a_y_fac = a_y_fac, a_z_fac = a_z_fac,
          del_x = del_x, del_y = del_y, del_z = del_z,
          u_fac = u_fac, v_fac = v_fac, w_fac = w_fac\<rparr>)))))))))))))))"

definition faces_X :: "(pos \<Rightarrow> bool) \<Rightarrow> res \<Rightarrow> res \<Rightarrow> res \<Rightarrow> res \<Rightarrow> res \<Rightarrow> res \<Rightarrow> res \<Rightarrow>
    unknown \<Rightarrow> unknown \<Rightarrow> unknown \<Rightarrow> error + faces" where
  "faces_X pr rho sx sy sz dx dy dz uf vf wf' =
     (let rho_x_fac = rho in
     sthen (avg_x (avg_y rho)) (\<lambda>rho_nod_y.
     sthen (pad AY rho_nod_y rho_nod_y) (\<lambda>rho_y_fac.
     sthen (avg_x (avg_z rho)) (\<lambda>rho_nod_z.
     sthen (pad AZ rho_nod_z rho_nod_z) (\<lambda>rho_z_fac.
     let a_x_fac = sx in
     sthen (cat_y [avg_x (sl AY None (Some 1) sy), avg_x (avg_y sy),
                   avg_x (sl AY (Some (- 1)) None sy)]) (\<lambda>a_y_fac.
     sthen (cat_z [avg_x (sl AZ None (Some 1) sz), avg_x (avg_z sz),
                   avg_x (sl AZ (Some (- 1)) None sz)]) (\<lambda>a_z_fac.
     sthen (whole dx) (\<lambda>del_x.
     sthen (avg_x (dist AY dy)) (\<lambda>del_y.
     sthen (avg_x (dist AZ dz)) (\<lambda>del_z.
     periodic (pr Y) AY rho_y_fac a_y_fac del_y (\<lambda>rho_y_fac a_y_fac del_y.
     periodic (pr Z) AZ rho_z_fac a_z_fac del_z (\<lambda>rho_z_fac a_z_fac del_z.
     sthen (cat_x [Ok (bnd uf W), avg_x (Ok (val uf)), Ok (bnd uf E)]) (\<lambda>u_fac.
     sthen (avg_x (cat_y [Ok (bnd vf S), Ok (val vf), Ok (bnd vf N)])) (\<lambda>v_fac.
     sthen (avg_x (cat_z [Ok (bnd wf' B), Ok (val wf'), Ok (bnd wf' T)])) (\<lambda>w_fac.
     Inr \<lparr>rho_x_fac = rho_x_fac, rho_y_fac = rho_y_fac, rho_z_fac = rho_z_fac,
          a_x_fac = a_x_fac, a_y_fac = a_y_fac, a_z_fac = a_z_fac,
          del_x = del_x, del_y = del_y, del_z = del_z,
          u_fac = u_fac, v_fac = v_fac, w_fac = w_fac\<rparr>)))))))))))))))"

definition faces_Y :: "(pos \<Rightarrow> bool) \<Rightarrow> res \<Rightarrow> res \<Rightarrow> res \<Rightarrow> res \<Rightarrow> res \<Rightarrow> res \<Rightarrow> res \<Rightarrow>
    unknown \<Rightarrow> unknown \<Rightarrow> unknown \<Rightarrow> error + faces" where
  "faces_Y pr rho sx sy sz dx dy dz uf vf wf' =
     sthen (avg_y (avg_x rho)) (\<lambda>rho_nod_x.
     sthen (pad AX rho_nod_x rho_nod_x) (\<lambda>rho_x_fac.
     let rho_y_fac = rho in
     sthen (avg_y (avg_z rho)) (\<lambda>rho_nod_z.
     sthen (pad AZ rho_nod_z rho_nod_z) (\<lambda>rho_z_fac.
     sthen (cat_x [avg_y (sl AX None (Some 1) sx), avg_y (avg_x sx),
                   avg_y (sl AX (Some (- 1)) None sx)]) (\<lambda>a_x_fac.
     let a_y_fac = sy in
     sthen (cat_z [avg_y (sl AZ None (Some 1) sz), avg_y (avg_z sz),
                   avg_y (sl AZ (Some (- 1)) None sz)]) (\<lambda>a_z_fac.
     sthen (avg_y (dist AX dx)) (\<lambda>del_x.
     sthen (whole dy) (\<lambda>del_y.
     sthen (avg_y (dist AZ dz)) (\<lambda>del_z.
     periodic (pr X) AX rho_x_fac a_x_fac del_x (\<lambda>rho_x_fac a_x_fac del_x.
     periodic (pr Z) AZ rho_z_fac a_z_fac del_z (\<lambda>rho_z_fac a_z_fac del_z.
     sthen (avg_y (cat_x [Ok (bnd uf W), Ok (val uf), Ok (bnd uf E)])) (\<lambda>u_fac.
     sthen (cat_y [Ok (bnd vf S), avg_y (Ok (val vf)), Ok (bnd vf N)]) (\<lambda>v_fac.
     sthen (avg_y (cat_z [Ok (bnd wf' B), Ok (val wf'), Ok (bnd wf' T)])) (\<lambda>w_fac.
     Inr \<lparr>rho_x_fac = rho_x_fac, rho_y_fac = rho_y_fac, rho_z_fac = rho_z_fac,
          a_x_fac = a_x_fac, a_y_fac = a_y_fac, a_z_fac = a_z_fac,
          del_x = del_x, del_y = del_y, del_z = del_z,
          u_fac = u_fac, v_fac = v_fac, w_fac = w_fac\<rparr>))))))))))))))"

definition faces_Z :: "(pos \<Rightarrow> bool) \<Rightarrow> res \<Rightarrow> res \<Rightarrow> res \<Rightarrow> res \<Rightarrow> res \<Rightarrow> res \<Rightarrow> res \<Rightarrow>
    unknown \<Rightarrow> unknown \<Rightarrow> unknown \<Rightarrow> error + faces" where
  "faces_Z pr rho sx sy sz dx dy dz uf vf wf' =
     sthen (avg_z (avg_x rho)) (\<lambda>rho_nod_x.
     sthen (pad AX rho_nod_x rho_nod_x) (\<lambda>rho_x_fac.
     sthen (avg_z (avg_y rho)) (\<lambda>rho_nod_y.
     sthen (pad AY rho_nod_y rho_nod_y) (\<lambda>rho_y_fac.
     let rho_z_fac = rho in
     sthen (cat_x [avg_z (sl AX None (Some 1) sx), avg_z (avg_x sx),
                   avg_z (sl AX (Some (- 1)) None sx)]) (\<lambda>a_x_fac.
     sthen (cat_y [avg_z (sl AY None (Some 1) sy), avg_z (avg_y sy),
                   avg_z (sl AY (Some (- 1)) None sy)]) (\<lambda>a_y_fac.
     let a_z_fac = sz in
     sthen (avg_z (dist AX dx)) (\<lambda>del_x.
     sthen (avg_z (dist AY dy)) (\<lambda>del_y.
     sthen (whole dz) (\<lambda>del_z.
     periodic (pr X) AX rho_x_fac a_x_fac del_x (\<lambda>rho_x_fac a_x_fac del_x.
     periodic (pr Y) AY rho_y_fac a_y_fac del_y (\<lambda>rho_y_fac a_y_fac del_y.
     sthen (avg_z (cat_x [Ok (bnd uf W), Ok (val uf), Ok (bnd uf E)])) (\<lambda>u_fac.
     sthen (avg_z (cat_y [Ok (bnd vf S), Ok (val vf), Ok (bnd vf N)])) (\<lambda>v_fac.
     sthen (cat_z [Ok (bnd wf' B), avg_z (Ok (val wf')), Ok (bnd wf' T)]) (\<lambda>w_fac.
     Inr \<lparr>rho_x_fac = rho_x_fac, rho_y_fac = rho_y_fac, rho_z_fac = rho_z_fac,
          a_x_fac = a_x_fac, a_y_fac = a_y_fac, a_z_fac = a_z_fac,
          del_x = del_x, del_y = del_y, del_z = del_z,
          u_fac = u_fac, v_fac = v_fac, w_fac = w_fac\<rparr>))))))))))))))"

text \<open>
  The four branches \<open>if pos == C\<close>, \<open>if pos == X\<close>, \<open>if pos == Y\<close>, \<open>if pos == Z\<close>. For
  any other placement no branch runs and the face arrays stay unbound.
\<close>

definition unbound :: "string \<Rightarrow> res" where
  "unbound name = Err (UnboundLocalError name)"

definition reconstruct :: "pos \<Rightarrow> (pos \<Rightarrow> bool) \<Rightarrow> res \<Rightarrow> res \<Rightarrow> res \<Rightarrow> res \<Rightarrow> res \<Rightarrow> res \<Rightarrow> res \<Rightarrow>
    unknown \<Rightarrow> unknown \<Rightarrow> unknown \<Rightarrow> error + faces" where
  "reconstruct ps pr rho sx sy sz dx dy dz uf vf wf' =
     (if ps = C then faces_C pr rho sx sy sz dx dy dz uf vf wf'
      else if ps = X then faces_X pr rho sx sy sz dx dy dz uf vf wf'
      else if ps = Y then faces_Y pr rho sx sy sz dx dy dz uf vf wf'
      else if ps = Z then faces_Z pr rho sx sy sz dx dy dz uf vf wf'
      else Inr \<lparr>rho_x_fac = unbound ''rho_x_fac'', rho_y_fac = unbound ''rho_y_fac'',
                rho_z_fac = unbound ''rho_z_fac'',
                a_x_fac = unbound ''a_x_fac'', a_y_fac = unbound ''a_y_fac'',
                a_z_fac = unbound ''a_z_fac'',
                del_x = unbound ''del_x'', del_y = unbound ''del_y'', del_z = unbound ''del_z'',
                u_fac = unbound ''u_fac'', v_fac = unbound ''v_fac'',
                w_fac = unbound ''w_fac''\<rparr>)"

section \<open>Differences, gradient ratios and flow masks (lines 276-336)\<close>

text \<open>
  Lines 277-287: the consecutive differences along one axis. On a non-periodic axis
  each boundary array is put twice at its end; on a periodic axis the values wrap, two
  deep when the unknown is staggered along this axis.
\<close>

definition consecutive :: "axis \<Rightarrow> bool \<Rightarrow> bool \<Rightarrow> res \<Rightarrow> res \<Rightarrow> res \<Rightarrow> res" where
  "consecutive ax periodic_axis staggered lo v hi =
     (if periodic_axis = False then dif ax (cat ax [lo, lo, v, hi, hi])
      else if staggered then
        dif ax (cat ax [sl ax (Some (- 2)) None v, v, sl ax None (Some 2) v])
      else
        dif ax (cat ax [sl ax (Some (- 3)) (Some (- 1)) v, v, sl ax (Some 1) (Some 3) v]))"

definition slopes :: "real \<Rightarrow> pos \<Rightarrow> (pos \<Rightarrow> bool) \<Rightarrow> unknown \<Rightarrow> faces \<Rightarrow>
    error + gradients" where
  "slopes TINY ps pr phi F =
     sthen (clamp TINY (consecutive AX (pr X) (ps = X)
              (Ok (bnd phi W)) (Ok (val phi)) (Ok (bnd phi E)))) (\<lambda>d_x.
     sthen (clamp TINY (consecutive AY (pr Y) (ps = Y)
              (Ok (bnd phi S)) (Ok (val phi)) (Ok (bnd phi N)))) (\<lambda>d_y.
     sthen (clamp TINY (consecutive AZ (pr Z) (ps = Z)
              (Ok (bnd phi B)) (Ok (val phi)) (Ok (bnd phi T)))) (\<lambda>d_z.
     sthen (sl AX (Some 1) (Some (- 1)) d_x / sl AX (Some 0) (Some (- 2)) d_x) (\<lambda>r_x_we.
     sthen (sl AX (Some 2) None d_x / sl AX (Some 1) (Some (- 1)) d_x) (\<lambda>r_x_ew.
     sthen (sl AY (Some 1) (Some (- 1)) d_y / sl AY (Some 0) (Some (- 2)) d_y) (\<lambda>r_y_sn.
     sthen (sl AY (Some 2) None d_y / sl AY (Some 1) (Some (- 1)) d_y) (\<lambda>r_y_ns.
     sthen (sl AZ (Some 1) (Some (- 1)) d_z / sl AZ (Some 0) (Some (- 2)) d_z) (\<lambda>r_z_bt.
     sthen (sl AZ (Some 2) None d_z / sl AZ (Some 1) (Some (- 1)) d_z) (\<lambda>r_z_tb.
     sthen (ge0 (u_fac F)) (\<lambda>flow_we.
     sthen (lnot flow_we) (\<lambda>flow_ew.
     sthen (ge0 (v_fac F)) (\<lambda>flow_sn.
     sthen (lnot flow_sn) (\<lambda>flow_ns.
     sthen (ge0 (w_fac F)) (\<lambda>flow_bt.
     sthen (lnot flow_bt) (\<lambda>flow_tb.
     sthen (r_x_we * flow_we + r_x_ew * flow_ew) (\<lambda>r_x.
     sthen (r_y_sn * flow_sn + r_y_ns * flow_ns) (\<lambda>r_y.
     sthen (r_z_bt * flow_bt + r_z_tb * flow_tb) (\<lambda>r_z.
     Inr \<lparr>d_x = d_x, d_y = d_y, d_z = d_z,
          r_x_we = r_x_we, r_x_ew = r_x_ew, r_y_sn = r_y_sn, r_y_ns = r_y_ns,
          r_z_bt = r_z_bt, r_z_tb = r_z_tb,
          flow_we = flow_we, flow_ew = flow_ew, flow_sn = flow_sn, flow_ns = flow_ns,
          flow_bt = flow_bt, flow_tb = flow_tb,
          r_x = r_x, r_y = r_y, r_z = r_z\<rparr>))))))))))))))))))"

section \<open>Limiters (lines 338-354)\<close>

definition psi_upwind :: "res \<Rightarrow> res" where
  "psi_upwind r = r * sc 0"

definition psi_minmod :: "res \<Rightarrow> res" where
  "psi_minmod r = mx (zeros r) (mn r (ones r))"

definition psi_superbee :: "res \<Rightarrow> res" where
  "psi_superbee r = mx3 (zeros r) (mn (sc 2 * r) (ones r)) (mn r (sc 2))"

definition psi_koren :: "res \<Rightarrow> res" where
  "psi_koren r = mx (zeros r) (mn3 (sc 2 * r) ((sc 2 + r) / sc 3) (sc 2 * ones r))"

text \<open>
  The chain \<open>if limiter == "upwind" ... elif limiter == "koren"\<close> has no final
  \<open>else\<close>: for any other name nothing is assigned and \<open>psi_x\<close>, \<open>psi_y\<close>, \<open>psi_z\<close>
  stay unbound.
\<close>

definition apply_limiter :: "string \<Rightarrow> res \<Rightarrow> res \<Rightarrow> res \<Rightarrow> error + res \<times> res \<times> res" where
  "apply_limiter limiter rx ry rz =
     (if limiter = ''upwind'' then
        sthen (psi_upwind rx) (\<lambda>psi_x. sthen (psi_upwind ry) (\<lambda>psi_y.
        sthen (psi_upwind rz) (\<lambda>psi_z. Inr (psi_x, psi_y, psi_z))))
      else if limiter = ''minmod'' then
        sthen (psi_minmod rx) (\<lambda>psi_x. sthen (psi_minmod ry) (\<lambda>psi_y.
        sthen (psi_minmod rz) (\<lambda>psi_z. Inr (psi_x, psi_y, psi_z))))
      else if limiter = ''superbee'' then
        sthen (psi_superbee rx) (\<lambda>psi_x. sthen (psi_superbee ry) (\<lambda>psi_y.
        sthen (psi_superbee rz) (\<lambda>psi_z. Inr (psi_x, psi_y, psi_z))))
      else if limiter = ''koren'' then
        sthen (psi_koren rx) (\<lambda>psi_x. sthen (psi_koren ry) (\<lambda>psi_y.
        sthen (psi_koren rz) (\<lambda>psi_z. Inr (psi_x, psi_y, psi_z))))
      else Inr (unbound ''psi_x'', unbound ''psi_y'', unbound ''psi_z''))"

section \<open>Flux assembly (lines 356-419)\<close>

text \<open>
  Lines 400-401: the upwind face flux along one axis, the donor value times the face
  velocity under the mask of its flow direction.
\<close>

definition upwind_flux :: "axis \<Rightarrow> res \<Rightarrow> res \<Rightarrow> res \<Rightarrow> res \<Rightarrow> res \<Rightarrow> res \<Rightarrow> res" where
  "upwind_flux ax lo v hi u flow_p flow_n =
     cat ax [lo, v] * u * flow_p + cat ax [v, hi] * u * flow_n"

text \<open>Lines 356-360: the limited face flux along one axis.\<close>

definition limited_flux :: "axis \<Rightarrow> res \<Rightarrow> res \<Rightarrow> res \<Rightarrow> res \<Rightarrow> res \<Rightarrow> res \<Rightarrow> real \<Rightarrow>
    res \<Rightarrow> res \<Rightarrow> res \<Rightarrow> res" where
  "limited_flux ax lo v hi u flow_p flow_n dt del psi d =
     cat ax [lo, v] * u * flow_p + cat ax [v, hi] * u * flow_n
     + sc 0.5 * abs u * (sc 1 - abs u * sc dt / del)
       * (whole psi * sl ax (Some 0) (Some (- 2)) d * flow_p
          + whole psi * sl ax (Some 1) (Some (- 1)) d * flow_n)"

text \<open>
  Lines 384-387: the upwind mass flow of the faces along one axis goes into the band
  of the lower neighbour, the band of the upper neighbour and the centre band.
\<close>

definition mass_flow :: "res \<Rightarrow> res \<Rightarrow> res \<Rightarrow> res \<Rightarrow> res" where
  "mass_flow u flow rho_fac a_fac = u * flow * rho_fac * a_fac"

definition fill_bands :: "axis \<Rightarrow> res \<Rightarrow> res \<Rightarrow> res \<Rightarrow> res \<Rightarrow> res \<Rightarrow> res \<Rightarrow> res \<Rightarrow> res \<Rightarrow>
    (res \<Rightarrow> res \<Rightarrow> res \<Rightarrow> error + 'a) \<Rightarrow> error + 'a" where
  "fill_bands ax lower upper centre u flow_p flow_n rho_fac a_fac k =
     sthen (inplace (+) (whole lower)
              (sl ax None (Some (- 1)) (mass_flow u flow_p rho_fac a_fac))) (\<lambda>lower.
     sthen (inplace (-) (whole upper)
              (sl ax (Some 1) None (mass_flow u flow_n rho_fac a_fac))) (\<lambda>upper.
     sthen (inplace (+) (whole centre)
              (sl ax None (Some (- 1)) (mass_flow u flow_p rho_fac a_fac)
               - sl ax (Some 1) None (mass_flow u flow_n rho_fac a_fac))) (\<lambda>centre.
     k lower upper centre)))"

text \<open>
  A statement whose value is needed as an array by what follows, and a group of
  statements that hands its local variables to what follows.
\<close>

definition ethen :: "error + 'a \<Rightarrow> ('a \<Rightarrow> error + 'b) \<Rightarrow> error + 'b" where
  "ethen s f = (case s of Inl e \<Rightarrow> Inl e | Inr a \<Rightarrow> f a)"


definition athen :: "res \<Rightarrow> (arr \<Rightarrow> error + 'a) \<Rightarrow> error + 'a" where
  "athen s f = (case s of Err e \<Rightarrow> Inl e | Ok a \<Rightarrow> f a)"

text \<open>
  Lines 356-419, from the limited fluxes to the returned array, given the face arrays,
  the gradients and the limiter values.
\<close>

definition c_lim_of :: "unknown \<Rightarrow> real \<Rightarrow> faces \<Rightarrow> gradients \<Rightarrow> res \<times> res \<times> res \<Rightarrow>
    (res \<Rightarrow> error + 'a) \<Rightarrow> error + 'a" where
  "c_lim_of phi dt F G psi k =
     (case psi of (psi_x, psi_y, psi_z) \<Rightarrow>
     sthen (limited_flux AX (Ok (bnd phi W)) (Ok (val phi)) (Ok (bnd phi E))
              (u_fac F) (flow_we G) (flow_ew G) dt (del_x F) psi_x (d_x G)) (\<lambda>flux_fac_lim_x.
     sthen (limited_flux AY (Ok (bnd phi S)) (Ok (val phi)) (Ok (bnd phi N))
              (v_fac F) (flow_sn G) (flow_ns G) dt (del_y F) psi_y (d_y G)) (\<lambda>flux_fac_lim_y.
     sthen (limited_flux AZ (Ok (bnd phi B)) (Ok (val phi)) (Ok (bnd phi T))
              (w_fac F) (flow_bt G) (flow_tb G) dt (del_z F) psi_z (d_z G)) (\<lambda>flux_fac_lim_z.
     sthen (inplace (*) flux_fac_lim_x (rho_x_fac F * a_x_fac F)) (\<lambda>flux_fac_lim_x.
     sthen (inplace (*) flux_fac_lim_y (rho_y_fac F * a_y_fac F)) (\<lambda>flux_fac_lim_y.
     sthen (inplace (*) flux_fac_lim_z (rho_z_fac F * a_z_fac F)) (\<lambda>flux_fac_lim_z.
     sthen (dif_x flux_fac_lim_x + dif_y flux_fac_lim_y + dif_z flux_fac_lim_z) k)))))))"

definition c_upw_of :: "unknown \<Rightarrow> faces \<Rightarrow> gradients \<Rightarrow> (res \<Rightarrow> error + 'a) \<Rightarrow> error + 'a" where
  "c_upw_of phi F G k =
     sthen (upwind_flux AX (Ok (bnd phi W)) (Ok (val phi)) (Ok (bnd phi E))
              (u_fac F) (flow_we G) (flow_ew G)) (\<lambda>flux_fac_upw_x.
     sthen (upwind_flux AY (Ok (bnd phi S)) (Ok (val phi)) (Ok (bnd phi N))
              (v_fac F) (flow_sn G) (flow_ns G)) (\<lambda>flux_fac_upw_y.
     sthen (upwind_flux AZ (Ok (bnd phi B)) (Ok (val phi)) (Ok (bnd phi T))
              (w_fac F) (flow_bt G) (flow_tb G)) (\<lambda>flux_fac_upw_z.
     sthen (inplace (*) flux_fac_upw_x (rho_x_fac F * a_x_fac F)) (\<lambda>flux_fac_upw_x.
     sthen (inplace (*) flux_fac_upw_y (rho_y_fac F * a_y_fac F)) (\<lambda>flux_fac_upw_y.
     sthen (inplace (*) flux_fac_upw_z (rho_z_fac F * a_z_fac F)) (\<lambda>flux_fac_upw_z.
     sthen (dif_x flux_fac_upw_x + dif_y flux_fac_upw_y + dif_z flux_fac_upw_z) k))))))"

text \<open>Lines 384-397: the nine in-place updates of the bands of the matrix.\<close>

definition fill_matrix :: "matrix \<Rightarrow> faces \<Rightarrow> gradients \<Rightarrow> (matrix \<Rightarrow> error + 'a) \<Rightarrow> error + 'a" where
  "fill_matrix m F G k =
     fill_bands AX (Ok (band_W m)) (Ok (band_E m)) (Ok (band_C m))
       (u_fac F) (flow_we G) (flow_ew G) (rho_x_fac F) (a_x_fac F) (\<lambda>mW mE mC.
     fill_bands AY (Ok (band_S m)) (Ok (band_N m)) mC
       (v_fac F) (flow_sn G) (flow_ns G) (rho_y_fac F) (a_y_fac F) (\<lambda>mS mN mC.
     fill_bands AZ (Ok (band_B m)) (Ok (band_T m)) mC
       (w_fac F) (flow_bt G) (flow_tb G) (rho_z_fac F) (a_z_fac F) (\<lambda>mB mT mC.
     athen mC (\<lambda>c. athen mW (\<lambda>w. athen mE (\<lambda>e. athen mS (\<lambda>s. athen mN (\<lambda>n.
     athen mB (\<lambda>b. athen mT (\<lambda>t.
     k \<lparr>band_C = c, band_W = w, band_E = e, band_S = s, band_N = n,
        band_B = b, band_T = t\<rparr>))))))))))"

section \<open>The function advection\<close>

text \<open>
  \<open>exchange\<close> is the method that refreshes the buffers of an unknown; it belongs to the
  class of the unknowns, which is not among the source files, and is a parameter here.
  The call returns the refreshed unknowns and the matrix, which the code changes in
  place, together with the array it returns.
\<close>

type_synonym state = "unknown \<times> (unknown \<times> unknown \<times> unknown) \<times> matrix option"

definition advection :: "(unknown \<Rightarrow> unknown) \<Rightarrow> real \<Rightarrow> arr \<Rightarrow> unknown \<Rightarrow>
    unknown \<times> unknown \<times> unknown \<Rightarrow> arr \<times> arr \<times> arr \<Rightarrow> real \<Rightarrow> string \<Rightarrow> matrix option \<Rightarrow>
    error + state \<times> arr" where
  "advection exchange TINY rho phi uvwf dxyz dt limiter matrix =
     (case uvwf of (uf, vf, wf') \<Rightarrow>
      case dxyz of (dx, dy, dz) \<Rightarrow>
      let ps = pos phi; pr = per phi in
      sthen (Ok dy * Ok dz) (\<lambda>sx.
      sthen (Ok dx * Ok dz) (\<lambda>sy.
      sthen (Ok dx * Ok dy) (\<lambda>sz.
      let phi = exchange phi; uf = exchange uf; vf = exchange vf; wf' = exchange wf' in
      ethen (reconstruct ps pr (Ok rho) sx sy sz (Ok dx) (Ok dy) (Ok dz)
               uf vf wf') (\<lambda>F.
      ethen (slopes TINY ps pr phi F) (\<lambda>G.
      ethen (apply_limiter limiter (r_x G) (r_y G) (r_z G)) (\<lambda>psi.
      c_lim_of phi dt F G psi (\<lambda>c_lim.
      if matrix \<noteq> None then
        fill_matrix (the matrix) F G (\<lambda>m.
        c_upw_of phi F G (\<lambda>c_upw.
        athen (c_lim - c_upw) (\<lambda>c. Inr ((phi, (uf, vf, wf'), Some m), c))))
      else athen c_lim (\<lambda>c. Inr ((phi, (uf, vf, wf'), None), c))))))))))"

section \<open>The function calc_phi\<close>

text \<open>
  Modelled from the spec: \<open>avg(pos, a)\<close> of \<open>pyns.operators\<close>, the average of a
  cell-centred array to the placement of the unknown: the array itself for a
  cell-centred unknown, the average along the staggered axis otherwise.
\<close>

definition avg_pos :: "pos \<Rightarrow> res \<Rightarrow> res" where
  "avg_pos ps a = (if ps = X then avg_x a else if ps = Y then avg_y a
                   else if ps = Z then avg_z a else a)"


section \<open>Shapes and entries of the value of an expression\<close>

text \<open>
  The shape and the entries of the array that an expression yields; an expression that
  raises has no shape.
\<close>

definition shape :: "arr \<Rightarrow> nat \<times> nat \<times> nat" where
  "shape a = (nx a, ny a, nz a)"

definition shape_of :: "res \<Rightarrow> (nat \<times> nat \<times> nat) option" where
  "shape_of x = (case x of Err e \<Rightarrow> None | Ok a \<Rightarrow> Some (nx a, ny a, nz a))"

definition elt :: "res \<Rightarrow> nat \<Rightarrow> nat \<Rightarrow> nat \<Rightarrow> real" where
  "elt x = (case x of Err e \<Rightarrow> (\<lambda>i j k. 0) | Ok a \<Rightarrow> el a)"

fun sl_shape :: "axis \<Rightarrow> int option \<Rightarrow> int option \<Rightarrow> nat \<times> nat \<times> nat \<Rightarrow> nat \<times> nat \<times> nat" where
  "sl_shape AX lo hi (n, m, l) = (snd (pyslice n lo hi), m, l)"
| "sl_shape AY lo hi (n, m, l) = (n, snd (pyslice m lo hi), l)"
| "sl_shape AZ lo hi (n, m, l) = (n, m, snd (pyslice l lo hi))"

fun cat_shape :: "axis \<Rightarrow> (nat \<times> nat \<times> nat) option \<Rightarrow> (nat \<times> nat \<times> nat) option \<Rightarrow>
    (nat \<times> nat \<times> nat) option" where
  "cat_shape AX (Some (n, m, l)) (Some (n', m', l')) =
     (if m = m' \<and> l = l' then Some (n + n', m, l) else None)"
| "cat_shape AY (Some (n, m, l)) (Some (n', m', l')) =
     (if n = n' \<and> l = l' then Some (n, m + m', l) else None)"
| "cat_shape AZ (Some (n, m, l)) (Some (n', m', l')) =
     (if n = n' \<and> m = m' then Some (n, m, l + l') else None)"
| "cat_shape _ _ _ = None"

text \<open>
  The invariant of the data model: the values of an unknown have a shape \<open>(a, b, c)\<close>
  and each boundary array has the shape of the corresponding face of the values.
\<close>

definition wf_field :: "nat \<Rightarrow> nat \<Rightarrow> nat \<Rightarrow> unknown \<Rightarrow> bool" where
  "wf_field a b c u \<longleftrightarrow>
     shape (val u) = (a, b, c) \<and>
     shape (bnd u W) = (1, b, c) \<and> shape (bnd u E) = (1, b, c) \<and>
     shape (bnd u S) = (a, 1, c) \<and> shape (bnd u N) = (a, 1, c) \<and>
     shape (bnd u B) = (a, b, 1) \<and> shape (bnd u T) = (a, b, 1)"

text \<open>
  The face arrays of an unknown with values of shape \<open>(a, b, c)\<close>: one more entry
  along their own axis.
\<close>

definition faces_ok :: "nat \<Rightarrow> nat \<Rightarrow> nat \<Rightarrow> faces \<Rightarrow> bool" where
  "faces_ok a b c F \<longleftrightarrow>
     shape_of (rho_x_fac F) = Some (a + 1, b, c) \<and> shape_of (a_x_fac F) = Some (a + 1, b, c) \<and>
     shape_of (del_x F) = Some (a + 1, b, c) \<and> shape_of (u_fac F) = Some (a + 1, b, c) \<and>
     shape_of (rho_y_fac F) = Some (a, b + 1, c) \<and> shape_of (a_y_fac F) = Some (a, b + 1, c) \<and>
     shape_of (del_y F) = Some (a, b + 1, c) \<and> shape_of (v_fac F) = Some (a, b + 1, c) \<and>
     shape_of (rho_z_fac F) = Some (a, b, c + 1) \<and> shape_of (a_z_fac F) = Some (a, b, c + 1) \<and>
     shape_of (del_z F) = Some (a, b, c + 1) \<and> shape_of (w_fac F) = Some (a, b, c + 1)"

text \<open>The array that an expression yields (an empty array when it raises).\<close>

definition arr_of :: "res \<Rightarrow> arr" where
  "arr_of x = (case x of Err e \<Rightarrow> Arr 0 0 0 (\<lambda>i j k. 0) | Ok a \<Rightarrow> a)"

text \<open>
  The shape of the values of an unknown on a grid of \<open>n\<close> by \<open>m\<close> by \<open>l\<close> cells: a staggered
  unknown has one entry less along its own axis.
\<close>

definition val_shape :: "pos \<Rightarrow> nat \<Rightarrow> nat \<Rightarrow> nat \<Rightarrow> nat \<times> nat \<times> nat" where
  "val_shape ps n m l =
     (if ps = X then (n - 1, m, l) else if ps = Y then (n, m - 1, l)
      else if ps = Z then (n, m, l - 1) else (n, m, l))"

text \<open>
  Well-shaped arguments of \<open>advection\<close>: density and cell dimensions on one grid of at
  least three cells along each axis, the transported unknown and the three staggered
  velocity components (as the exchange leaves them) with the shapes of their placements.
\<close>

definition wf_inputs :: "(unknown \<Rightarrow> unknown) \<Rightarrow> arr \<Rightarrow> unknown \<Rightarrow>
    unknown \<times> unknown \<times> unknown \<Rightarrow> arr \<times> arr \<times> arr \<Rightarrow> bool" where
  "wf_inputs exchange rho phi uvwf dxyz \<longleftrightarrow>
     (case uvwf of (uf, vf, wf') \<Rightarrow> case dxyz of (dx, dy, dz) \<Rightarrow>
      case shape rho of (n, m, l) \<Rightarrow>
        3 \<le> n \<and> 3 \<le> m \<and> 3 \<le> l \<and>
        shape dx = (n, m, l) \<and> shape dy = (n, m, l) \<and> shape dz = (n, m, l) \<and>
        (case val_shape (pos phi) n m l of (a, b, c) \<Rightarrow> wf_field a b c (exchange phi)) \<and>
        wf_field (n - 1) m l (exchange uf) \<and>
        wf_field n (m - 1) l (exchange vf) \<and>
        wf_field n m (l - 1) (exchange wf'))"

text \<open>The bands of a matrix for an unknown with values of shape \<open>(a, b, c)\<close>.\<close>

definition wf_matrix :: "nat \<Rightarrow> nat \<Rightarrow> nat \<Rightarrow> matrix \<Rightarrow> bool" where
  "wf_matrix a b c M \<longleftrightarrow>
     shape (band_C M) = (a, b, c) \<and> shape (band_W M) = (a, b, c) \<and>
     shape (band_E M) = (a, b, c) \<and> shape (band_S M) = (a, b, c) \<and>
     shape (band_N M) = (a, b, c) \<and> shape (band_B M) = (a, b, c) \<and>
     shape (band_T M) = (a, b, c)"

text \<open>The equations by which \<open>slopes\<close> assigns its local variables.\<close>

definition grads_eqs :: "real \<Rightarrow> pos \<Rightarrow> (pos \<Rightarrow> bool) \<Rightarrow> unknown \<Rightarrow> faces \<Rightarrow> gradients \<Rightarrow> bool" where
  "grads_eqs TINY ps pr phi F G \<longleftrightarrow>
     d_x G = clamp TINY (consecutive AX (pr X) (ps = X)
               (Ok (bnd phi W)) (Ok (val phi)) (Ok (bnd phi E))) \<and>
     d_y G = clamp TINY (consecutive AY (pr Y) (ps = Y)
               (Ok (bnd phi S)) (Ok (val phi)) (Ok (bnd phi N))) \<and>
     d_z G = clamp TINY (consecutive AZ (pr Z) (ps = Z)
               (Ok (bnd phi B)) (Ok (val phi)) (Ok (bnd phi T))) \<and>
     r_x_we G = sl AX (Some 1) (Some (- 1)) (d_x G) / sl AX (Some 0) (Some (- 2)) (d_x G) \<and>
     r_x_ew G = sl AX (Some 2) None (d_x G) / sl AX (Some 1) (Some (- 1)) (d_x G) \<and>
     r_y_sn G = sl AY (Some 1) (Some (- 1)) (d_y G) / sl AY (Some 0) (Some (- 2)) (d_y G) \<and>
     r_y_ns G = sl AY (Some 2) None (d_y G) / sl AY (Some 1) (Some (- 1)) (d_y G) \<and>
     r_z_bt G = sl AZ (Some 1) (Some (- 1)) (d_z G) / sl AZ (Some 0) (Some (- 2)) (d_z G) \<and>
     r_z_tb G = sl AZ (Some 2) None (d_z G) / sl AZ (Some 1) (Some (- 1)) (d_z G) \<and>
     flow_we G = ge0 (u_fac F) \<and> flow_ew G = lnot (flow_we G) \<and>
     flow_sn G = ge0 (v_fac F) \<and> flow_ns G = lnot (flow_sn G) \<and>
     flow_bt G = ge0 (w_fac F) \<and> flow_tb G = lnot (flow_bt G) \<and>
     r_x G = r_x_we G * flow_we G + r_x_ew G * flow_ew G \<and>
     r_y G = r_y_sn G * flow_sn G + r_y_ns G * flow_ns G \<and>
     r_z G = r_z_bt G * flow_bt G + r_z_tb G * flow_tb G"

text \<open>The shapes of the local variables of \<open>slopes\<close>.\<close>

definition grads_ok :: "nat \<Rightarrow> nat \<Rightarrow> nat \<Rightarrow> gradients \<Rightarrow> bool" where
  "grads_ok a b c G \<longleftrightarrow>
     shape_of (d_x G) = Some (a + 3, b, c) \<and> shape_of (d_y G) = Some (a, b + 3, c) \<and>
     shape_of (d_z G) = Some (a, b, c + 3) \<and>
     shape_of (r_x_we G) = Some (a + 1, b, c) \<and> shape_of (r_x_ew G) = Some (a + 1, b, c) \<and>
     shape_of (r_y_sn G) = Some (a, b + 1, c) \<and> shape_of (r_y_ns G) = Some (a, b + 1, c) \<and>
     shape_of (r_z_bt G) = Some (a, b, c + 1) \<and> shape_of (r_z_tb G) = Some (a, b, c + 1) \<and>
     shape_of (flow_we G) = Some (a + 1, b, c) \<and> shape_of (flow_ew G) = Some (a + 1, b, c) \<and>
     shape_of (flow_sn G) = Some (a, b + 1, c) \<and> shape_of (flow_ns G) = Some (a, b + 1, c) \<and>
     shape_of (flow_bt G) = Some (a, b, c + 1) \<and> shape_of (flow_tb G) = Some (a, b, c + 1) \<and>
     shape_of (r_x G) = Some (a + 1, b, c) \<and> shape_of (r_y G) = Some (a, b + 1, c) \<and>
     shape_of (r_z G) = Some (a, b, c + 1)"

text \<open>
  The values of \<open>c_lim\<close> and \<open>c_upw\<close> as expressions: the sum over the three axes of the
  differences of the face fluxes.
\<close>

definition c_lim_res :: "unknown \<Rightarrow> real \<Rightarrow> faces \<Rightarrow> gradients \<Rightarrow> res \<times> res \<times> res \<Rightarrow> res" where
  "c_lim_res phi dt F G psi =
     dif_x (inplace (*)
        (limited_flux AX (Ok (bnd phi W)) (Ok (val phi)) (Ok (bnd phi E))
           (u_fac F) (flow_we G) (flow_ew G) dt (del_x F) (fst psi) (d_x G))
        (rho_x_fac F * a_x_fac F))
     + dif_y (inplace (*)
        (limited_flux AY (Ok (bnd phi S)) (Ok (val phi)) (Ok (bnd phi N))
           (v_fac F) (flow_sn G) (flow_ns G) dt (del_y F) (fst (snd psi)) (d_y G))
        (rho_y_fac F * a_y_fac F))
     + dif_z (inplace (*)
        (limited_flux AZ (Ok (bnd phi B)) (Ok (val phi)) (Ok (bnd phi T))
           (w_fac F) (flow_bt G) (flow_tb G) dt (del_z F) (snd (snd psi)) (d_z G))
        (rho_z_fac F * a_z_fac F))"

definition c_upw_res :: "unknown \<Rightarrow> faces \<Rightarrow> gradients \<Rightarrow> res" where
  "c_upw_res phi F G =
     dif_x (inplace (*)
        (upwind_flux AX (Ok (bnd phi W)) (Ok (val phi)) (Ok (bnd phi E))
           (u_fac F) (flow_we G) (flow_ew G))
        (rho_x_fac F * a_x_fac F))
     + dif_y (inplace (*)
        (upwind_flux AY (Ok (bnd phi S)) (Ok (val phi)) (Ok (bnd phi N))
           (v_fac F) (flow_sn G) (flow_ns G))
        (rho_y_fac F * a_y_fac F))
     + dif_z (inplace (*)
        (upwind_flux AZ (Ok (bnd phi B)) (Ok (val phi)) (Ok (bnd phi T))
           (w_fac F) (flow_bt G) (flow_tb G))
        (rho_z_fac F * a_z_fac F))"

text \<open>The extent along an axis of the array that an expression yields.\<close>

definition dim_of :: "axis \<Rightarrow> res \<Rightarrow> nat" where
  "dim_of ax x = (case shape_of x of None \<Rightarrow> 0
                  | Some (n, m, l) \<Rightarrow> (case ax of AX \<Rightarrow> n | AY \<Rightarrow> m | AZ \<Rightarrow> l))"

text \<open>
  What the clamp guarantees along one axis: every clamped difference \<open>d\<close> has magnitude
  at least \<open>TINY\<close> and the sign of the difference \<open>raw\<close> it comes from where that is
  not zero, and the two gradient ratios are quotients whose divisors are slices of \<open>d\<close>.
\<close>

definition safe_differences :: "real \<Rightarrow> axis \<Rightarrow> res \<Rightarrow> res \<Rightarrow> res \<Rightarrow> res \<Rightarrow> bool" where
  "safe_differences TINY ax raw d r_p r_n \<longleftrightarrow>
     shape_of raw \<noteq> None \<and> shape_of d = shape_of raw \<and>
     (\<forall>i j k. TINY \<le> \<bar>elt d i j k\<bar> \<and>
        (elt raw i j k < 0 \<longrightarrow> elt d i j k < 0) \<and>
        (0 < elt raw i j k \<longrightarrow> 0 < elt d i j k)) \<and>
     r_p = sl ax (Some 1) (Some (- 1)) d / sl ax (Some 0) (Some (- 2)) d \<and>
     r_n = sl ax (Some 2) None d / sl ax (Some 1) (Some (- 1)) d \<and>
     (\<forall>i j k. TINY \<le> \<bar>elt (sl ax (Some 0) (Some (- 2)) d) i j k\<bar> \<and>
              TINY \<le> \<bar>elt (sl ax (Some 1) (Some (- 1)) d) i j k\<bar>)"

text \<open>
  What the two masked assignments do to a difference that is zero or nearly zero: a
  zero and every value between \<open>- TINY\<close> and zero becomes \<open>- TINY\<close>, the values strictly
  between zero and \<open>TINY\<close> become \<open>TINY\<close>, and no other value is changed to \<open>TINY\<close>.
\<close>

definition zero_goes_negative :: "real \<Rightarrow> res \<Rightarrow> res \<Rightarrow> bool" where
  "zero_goes_negative TINY raw d \<longleftrightarrow>
     shape_of raw \<noteq> None \<and> shape_of d = shape_of raw \<and>
     (\<forall>i j k.
        (elt raw i j k = 0 \<longrightarrow> elt d i j k = - TINY) \<and>
        (- TINY < elt raw i j k \<and> elt raw i j k \<le> 0 \<longrightarrow> elt d i j k = - TINY) \<and>
        (0 < elt raw i j k \<and> elt raw i j k < TINY \<longrightarrow> elt d i j k = TINY) \<and>
        (elt d i j k = TINY \<and> elt raw i j k \<noteq> TINY \<longrightarrow>
           0 < elt raw i j k \<and> elt raw i j k < TINY))"

text \<open>
  What the flow masks select along one axis: at every face exactly one mask is 1, the
  positive one exactly where the face velocity is not negative; there the ratio and the
  donor value of the positive direction are used, elsewhere those of the negative one.
\<close>

definition flow_selection :: "res \<Rightarrow> res \<Rightarrow> res \<Rightarrow> res \<Rightarrow> res \<Rightarrow> res \<Rightarrow> res \<Rightarrow> res \<Rightarrow> res \<Rightarrow> bool" where
  "flow_selection u flow_p flow_n r_p r_n r donor_lo donor_hi flux \<longleftrightarrow>
     shape_of u \<noteq> None \<and> shape_of flow_p = shape_of u \<and> shape_of flow_n = shape_of u \<and>
     shape_of r = shape_of u \<and> shape_of flux = shape_of u \<and>
     (\<forall>i j k.
        (elt flow_p i j k = 1 \<and> elt flow_n i j k = 0 \<or>
         elt flow_p i j k = 0 \<and> elt flow_n i j k = 1) \<and>
        (elt flow_p i j k = 1 \<longleftrightarrow> 0 \<le> elt u i j k) \<and>
        (0 \<le> elt u i j k \<longrightarrow>
           elt r i j k = elt r_p i j k \<and> elt flux i j k = elt donor_lo i j k * elt u i j k) \<and>
        (elt u i j k < 0 \<longrightarrow>
           elt r i j k = elt r_n i j k \<and> elt flux i j k = elt donor_hi i j k * elt u i j k))"

text \<open>
  The face arrays that a call of \<open>advection\<close> reconstructs: lines 46-48 and 61-249
  on the arguments of the call.
\<close>

definition faces_of :: "(unknown \<Rightarrow> unknown) \<Rightarrow> arr \<Rightarrow> unknown \<Rightarrow>
    unknown \<times> unknown \<times> unknown \<Rightarrow> arr \<times> arr \<times> arr \<Rightarrow> error + faces" where
  "faces_of exchange rho phi uvwf dxyz =
     (case uvwf of (uf, vf, wf') \<Rightarrow> case dxyz of (dx, dy, dz) \<Rightarrow>
        reconstruct (pos phi) (per phi) (Ok rho) (Ok dy * Ok dz) (Ok dx * Ok dz) (Ok dx * Ok dy)
          (Ok dx) (Ok dy) (Ok dz) (exchange uf) (exchange vf) (exchange wf'))"

text \<open>
  The unknowns and the matrix as a call of \<open>advection\<close> leaves them: the unknowns
  refreshed by the exchange, the matrix as given.
\<close>

definition exchanged :: "(unknown \<Rightarrow> unknown) \<Rightarrow> unknown \<Rightarrow> unknown \<times> unknown \<times> unknown \<Rightarrow>
    matrix option \<Rightarrow> state" where
  "exchanged exchange phi uvwf M =
     (exchange phi,
      (case uvwf of (uf, vf, wf') \<Rightarrow> (exchange uf, exchange vf, exchange wf')), M)"

text \<open>
  The bands that lines 384-397 leave in the matrix, as expressions: each band after its
  in-place update, the centre band after its three updates.
\<close>

definition new_lower :: "axis \<Rightarrow> res \<Rightarrow> res \<Rightarrow> res \<Rightarrow> res \<Rightarrow> res \<Rightarrow> res" where
  "new_lower ax lower u flow_p rho_fac a_fac =
     inplace (+) (whole lower) (sl ax None (Some (- 1)) (mass_flow u flow_p rho_fac a_fac))"

definition new_upper :: "axis \<Rightarrow> res \<Rightarrow> res \<Rightarrow> res \<Rightarrow> res \<Rightarrow> res \<Rightarrow> res" where
  "new_upper ax upper u flow_n rho_fac a_fac =
     inplace (-) (whole upper) (sl ax (Some 1) None (mass_flow u flow_n rho_fac a_fac))"

definition new_centre :: "axis \<Rightarrow> res \<Rightarrow> res \<Rightarrow> res \<Rightarrow> res \<Rightarrow> res \<Rightarrow> res \<Rightarrow> res" where
  "new_centre ax centre u flow_p flow_n rho_fac a_fac =
     inplace (+) (whole centre)
       (sl ax None (Some (- 1)) (mass_flow u flow_p rho_fac a_fac)
        - sl ax (Some 1) None (mass_flow u flow_n rho_fac a_fac))"

definition filled_matrix :: "matrix \<Rightarrow> faces \<Rightarrow> gradients \<Rightarrow> matrix" where
  "filled_matrix M F G =
     \<lparr>band_C = arr_of
        (new_centre AZ
          (new_centre AY
            (new_centre AX (Ok (band_C M))
              (u_fac F) (flow_we G) (flow_ew G) (rho_x_fac F) (a_x_fac F))
            (v_fac F) (flow_sn G) (flow_ns G) (rho_y_fac F) (a_y_fac F))
          (w_fac F) (flow_bt G) (flow_tb G) (rho_z_fac F) (a_z_fac F)),
      band_W = arr_of (new_lower AX (Ok (band_W M)) (u_fac F) (flow_we G) (rho_x_fac F) (a_x_fac F)),
      band_E = arr_of (new_upper AX (Ok (band_E M)) (u_fac F) (flow_ew G) (rho_x_fac F) (a_x_fac F)),
      band_S = arr_of (new_lower AY (Ok (band_S M)) (v_fac F) (flow_sn G) (rho_y_fac F) (a_y_fac F)),
      band_N = arr_of (new_upper AY (Ok (band_N M)) (v_fac F) (flow_ns G) (rho_y_fac F) (a_y_fac F)),
      band_B = arr_of (new_lower AZ (Ok (band_B M)) (w_fac F) (flow_bt G) (rho_z_fac F) (a_z_fac F)),
      band_T = arr_of (new_upper AZ (Ok (band_T M)) (w_fac F) (flow_tb G) (rho_z_fac F) (a_z_fac F))\<rparr>"

text \<open>
  What lines 384-397 do to the bands, from a matrix \<open>M\<close> to a matrix \<open>M'\<close>: the mass
  flow of the positive direction through the lower face of a cell is added to the band
  of the lower neighbour, minus the mass flow of the negative direction through the
  upper face is added to the band of the upper neighbour, and the centre band receives
  the sum of what the six neighbour bands of the cell receive.
\<close>

definition upwind_bands :: "matrix \<Rightarrow> matrix \<Rightarrow> faces \<Rightarrow> gradients \<Rightarrow> bool" where
  "upwind_bands M M' F G \<longleftrightarrow>
     (\<forall>i j k.
        el (band_W M') i j k = el (band_W M) i j k
          + elt (mass_flow (u_fac F) (flow_we G) (rho_x_fac F) (a_x_fac F)) i j k \<and>
        el (band_E M') i j k = el (band_E M) i j k
          - elt (mass_flow (u_fac F) (flow_ew G) (rho_x_fac F) (a_x_fac F)) (i + 1) j k \<and>
        el (band_S M') i j k = el (band_S M) i j k
          + elt (mass_flow (v_fac F) (flow_sn G) (rho_y_fac F) (a_y_fac F)) i j k \<and>
        el (band_N M') i j k = el (band_N M) i j k
          - elt (mass_flow (v_fac F) (flow_ns G) (rho_y_fac F) (a_y_fac F)) i (j + 1) k \<and>
        el (band_B M') i j k = el (band_B M) i j k
          + elt (mass_flow (w_fac F) (flow_bt G) (rho_z_fac F) (a_z_fac F)) i j k \<and>
        el (band_T M') i j k = el (band_T M) i j k
          - elt (mass_flow (w_fac F) (flow_tb G) (rho_z_fac F) (a_z_fac F)) i j (k + 1) \<and>
        el (band_C M') i j k - el (band_C M) i j k =
          (el (band_W M') i j k - el (band_W M) i j k)
          + (el (band_E M') i j k - el (band_E M) i j k)
          + (el (band_S M') i j k - el (band_S M) i j k)
          + (el (band_N M') i j k - el (band_N M) i j k)
          + (el (band_B M') i j k - el (band_B M) i j k)
          + (el (band_T M') i j k - el (band_T M) i j k))"



text \<open>
  An expression yields an array of a given shape all of whose entries have one value.
\<close>

definition const_on :: "nat \<times> nat \<times> nat \<Rightarrow> res \<Rightarrow> real \<Rightarrow> bool" where
  "const_on t x v \<longleftrightarrow> shape_of x = Some t \<and>
     (\<forall>i j k. i < fst t \<and> j < fst (snd t) \<and> k < snd (snd t) \<longrightarrow> elt x i j k = v)"

text \<open>
  A spatially uniform unknown: one value in every cell and in every entry of the six
  boundary arrays.
\<close>

definition uniform_field :: "real \<Rightarrow> unknown \<Rightarrow> bool" where
  "uniform_field v u \<longleftrightarrow>
     (\<forall>i j k. i < nx (val u) \<and> j < ny (val u) \<and> k < nz (val u) \<longrightarrow> el (val u) i j k = v) \<and>
     (\<forall>s i j k. i < nx (bnd u s) \<and> j < ny (bnd u s) \<and> k < nz (bnd u s) \<longrightarrow>
        el (bnd u s) i j k = v)"

text \<open>
  The flux of a uniform field of value \<open>v\<close> through the face \<open>(i, j, k)\<close> of one axis: the
  value times the face velocity, less \<open>corr\<close> times the weight
  \<open>0.5 |u| (1 - |u| dt / del)\<close> of the limited correction, times face density and face area.
\<close>

definition uniform_flux :: "real \<Rightarrow> real \<Rightarrow> real \<Rightarrow> res \<Rightarrow> res \<Rightarrow> res \<Rightarrow> res \<Rightarrow>
    nat \<Rightarrow> nat \<Rightarrow> nat \<Rightarrow> real" where
  "uniform_flux v corr dt u del rho_fac a_fac i j k =
     (v * elt u i j k
      - corr * (0.5 * \<bar>elt u i j k\<bar> * (1 - \<bar>elt u i j k\<bar> * dt / elt del i j k)))
     * (elt rho_fac i j k * elt a_fac i j k)"

text \<open>
  The net flux of a uniform field out of the cell \<open>(i, j, k)\<close>: the differences of
  \<open>uniform_flux\<close> between the two faces of the cell along each axis, summed over the axes.
\<close>

definition uniform_divergence :: "real \<Rightarrow> real \<Rightarrow> real \<Rightarrow> faces \<Rightarrow> nat \<Rightarrow> nat \<Rightarrow> nat \<Rightarrow> real" where
  "uniform_divergence v corr dt F i j k =
     (uniform_flux v corr dt (u_fac F) (del_x F) (rho_x_fac F) (a_x_fac F) (Suc i) j k
      - uniform_flux v corr dt (u_fac F) (del_x F) (rho_x_fac F) (a_x_fac F) i j k)
     + (uniform_flux v corr dt (v_fac F) (del_y F) (rho_y_fac F) (a_y_fac F) i (Suc j) k
        - uniform_flux v corr dt (v_fac F) (del_y F) (rho_y_fac F) (a_y_fac F) i j k)
     + (uniform_flux v corr dt (w_fac F) (del_z F) (rho_z_fac F) (a_z_fac F) i j (Suc k)
        - uniform_flux v corr dt (w_fac F) (del_z F) (rho_z_fac F) (a_z_fac F) i j k)"

section \<open>Concrete inputs\<close>

text \<open>A constant array, and an unknown whose six boundary arrays are constant.\<close>

definition cst :: "nat \<Rightarrow> nat \<Rightarrow> nat \<Rightarrow> real \<Rightarrow> arr" where
  "cst n m l c = Arr n m l (\<lambda>i j k. c)"

definition field_of :: "pos \<Rightarrow> bool \<Rightarrow> arr \<Rightarrow> real \<Rightarrow> unknown" where
  "field_of ps p v b =
     \<lparr>val = v, old = v, pos = ps, per = (\<lambda>ax. p),
      bnd = (\<lambda>s. case s of
               W \<Rightarrow> cst 1 (ny v) (nz v) b | E \<Rightarrow> cst 1 (ny v) (nz v) b
             | S \<Rightarrow> cst (nx v) 1 (nz v) b | N \<Rightarrow> cst (nx v) 1 (nz v) b
             | B \<Rightarrow> cst (nx v) (ny v) 1 b | T \<Rightarrow> cst (nx v) (ny v) 1 b)\<rparr>"

text \<open>
  A grid of three by three by three cells of unit size and unit density, with a
  cell-centred unknown \<open>phi0\<close> that grows along x, a uniform unknown \<open>one0\<close>, and a
  velocity whose x component grows along x.
\<close>

definition grid0 :: arr where
  "grid0 = cst 3 3 3 1"

definition phi0 :: unknown where
  "phi0 = field_of C False (Arr 3 3 3 (\<lambda>i j k. real i)) 0"

definition one0 :: unknown where
  "one0 = field_of C False (cst 3 3 3 1) 1"

definition uvwf0 :: "unknown \<times> unknown \<times> unknown" where
  "uvwf0 = (field_of X False (Arr 2 3 3 (\<lambda>i j k. 2 + real i)) 1,
            field_of Y False (cst 3 2 3 0) 0,
            field_of Z False (cst 3 3 2 0) 0)"

text \<open>A matrix for \<open>phi0\<close> whose bands are zero.\<close>

definition matrix0 :: matrix where
  "matrix0 = \<lparr>band_C = cst 3 3 3 0, band_W = cst 3 3 3 0, band_E = cst 3 3 3 0,
               band_S = cst 3 3 3 0, band_N = cst 3 3 3 0, band_B = cst 3 3 3 0,
               band_T = cst 3 3 3 0\<rparr>"

text \<open>
  A velocity that is zero except on the x faces between the first and the second
  layer of cells, where it is 2.
\<close>

definition uvwf1 :: "unknown \<times> unknown \<times> unknown" where
  "uvwf1 = (field_of X False (Arr 2 3 3 (\<lambda>i j k. if i = 0 then 2 else 0)) 0,
            field_of Y False (cst 3 2 3 0) 0,
            field_of Z False (cst 3 3 2 0) 0)"

text \<open>The matrix and the array that a call of \<open>advection\<close> leaves and returns.\<close>

definition matrix_after :: "error + state \<times> arr \<Rightarrow> matrix" where
  "matrix_after r = (case r of Inr ((p, u, Some M), c) \<Rightarrow> M | _ \<Rightarrow> matrix0)"

definition returned :: "error + state \<times> arr \<Rightarrow> arr" where
  "returned r = (case r of Inr (s, c) \<Rightarrow> c | Inl e \<Rightarrow> Arr 0 0 0 (\<lambda>i j k. 0))"

text \<open>
  The matrix that the call with the upwind limiter leaves when it starts from the zero
  matrix and only the x faces between the first two layers of cells carry a flow.
\<close>

definition matrix1 :: matrix where
  "matrix1 = matrix_after (advection id (1 / 1000) grid0 phi0 uvwf1 (grid0, grid0, grid0)
               (1 / 10) ''upwind'' (Some matrix0))"

text \<open>
  The array that the explicit call with the upwind limiter returns for the uniform
  unknown \<open>one0\<close> and the velocity \<open>uvwf0\<close>.
\<close>

definition c_one0 :: arr where
  "c_one0 = returned (advection id (1 / 1000) grid0 one0 uvwf0 (grid0, grid0, grid0)
              (1 / 10) ''upwind'' None)"

text \<open>
  A velocity that is 1 along x on every face, boundary faces included, and zero along
  y and z; and the array that the explicit call with the minmod limiter returns for the
  uniform unknown \<open>one0\<close> and this velocity.
\<close>

definition uvwf2 :: "unknown \<times> unknown \<times> unknown" where
  "uvwf2 = (field_of X False (cst 2 3 3 1) 1,
            field_of Y False (cst 3 2 3 0) 0,
            field_of Z False (cst 3 3 2 0) 0)"

definition c_one1 :: arr where
  "c_one1 = returned (advection id (1 / 1000) grid0 one0 uvwf2 (grid0, grid0, grid0)
              (1 / 10) ''minmod'' None)"

section \<open>Properties of the array operations\<close>

lemma shape_of_Ok: "shape_of (Ok a) = Some (nx a, ny a, nz a)"
  by (simp add: shape_of_def)

lemma shape_of_Ok': "shape_of (Ok a) = Some (shape a)"
  by (simp add: shape_of_def shape_def)

lemma shape_of_Err [simp]: "shape_of (Err e) = None"
  by (simp add: shape_of_def)

lemma elt_Ok [simp]: "elt (Ok a) = el a"
  by (simp add: elt_def)

lemma shape_of_sc [simp]: "shape_of (sc c) = Some (1, 1, 1)"
  by (simp add: sc_def shape_of_Ok)

lemma elt_sc [simp]: "elt (sc c) i j k = c"
  by (simp add: sc_def)

lemma bdim_same [simp]: "bdim n n = Some n"
  by (simp add: bdim_def)

lemma bdim_1 [simp]:
  "bdim n 1 = Some n" "bdim 1 n = Some n" "bdim n (Suc 0) = Some n" "bdim (Suc 0) n = Some n"
  by (auto simp: bdim_def)

lemma bidx_same [simp]: "bidx n n i = i" "bidx n 1 i = i" "bidx n (Suc 0) i = i"
  by (auto simp: bidx_def)

lemma shape_of_SomeD:
  "shape_of x = Some (n, m, l) \<Longrightarrow> \<exists>a. x = Ok a \<and> nx a = n \<and> ny a = m \<and> nz a = l"
  by (cases x) (auto simp: shape_of_Ok)

lemma shape_of_not_None: "shape_of x \<noteq> None \<Longrightarrow> \<exists>a. x = Ok a"
  by (cases x) auto


lemma lift2_Ok_sc:
  "lift2 f (Ok a) (sc c) = Ok (Arr (nx a) (ny a) (nz a) (\<lambda>i j k. f (el a i j k) c))"
  "lift2 f (sc c) (Ok a) = Ok (Arr (nx a) (ny a) (nz a) (\<lambda>i j k. f c (el a i j k)))"
  by (simp_all add: lift2_def sc_def bidx_def)


lemma shape_lift2: "shape_of y = shape_of x \<Longrightarrow> shape_of (lift2 f x y) = shape_of x"
  by (cases x; cases y) (auto simp: lift2_def shape_of_Ok)

lemma elt_lift2:
  "shape_of y = shape_of x \<Longrightarrow> shape_of x \<noteq> None \<Longrightarrow>
   elt (lift2 f x y) = (\<lambda>i j k. f (elt x i j k) (elt y i j k))"
  by (cases x; cases y) (auto simp: lift2_def shape_of_Ok)

lemma shape_lift2_sc [simp]:
  "shape_of (lift2 f x (sc c)) = shape_of x" "shape_of (lift2 f (sc c) x) = shape_of x"
  by (cases x; simp add: lift2_Ok_sc shape_of_Ok; simp add: lift2_def sc_def)+

lemma elt_lift2_sc:
  "shape_of x \<noteq> None \<Longrightarrow> elt (lift2 f x (sc c)) = (\<lambda>i j k. f (elt x i j k) c)"
  "shape_of x \<noteq> None \<Longrightarrow> elt (lift2 f (sc c) x) = (\<lambda>i j k. f c (elt x i j k))"
  by (cases x; simp add: lift2_Ok_sc)+

lemma shape_of_lift1 [simp]: "shape_of (lift1 f x) = shape_of x"
  by (cases x) (auto simp: lift1_def shape_of_Ok)

lemma elt_lift1: "shape_of x \<noteq> None \<Longrightarrow> elt (lift1 f x) = (\<lambda>i j k. f (elt x i j k))"
  by (cases x) (auto simp: lift1_def)

section \<open>The limiters are bounded\<close>



section \<open>Shapes of the local variables\<close>

lemma shape_arith:
  "shape_of y = shape_of x \<Longrightarrow> shape_of (x + y) = shape_of x"
  "shape_of y = shape_of x \<Longrightarrow> shape_of (x - y) = shape_of x"
  "shape_of y = shape_of x \<Longrightarrow> shape_of (x * y) = shape_of x"
  "shape_of y = shape_of x \<Longrightarrow> shape_of (x / y) = shape_of x"
  "shape_of (abs x) = shape_of x"
  "shape_of (x * sc c) = shape_of x" "shape_of (sc c * x) = shape_of x"
  "shape_of (x + sc c) = shape_of x" "shape_of (sc c + x) = shape_of x"
  "shape_of (x - sc c) = shape_of x" "shape_of (sc c - x) = shape_of x"
  "shape_of (x / sc c) = shape_of x" "shape_of (sc c / x) = shape_of x"
  by (simp_all add: plus_res_def minus_res_def times_res_def divide_res_def abs_res_def shape_lift2)

lemma pyslice_simps:
  "pyslice n None None = (0, n)"
  "pyslice n None (Some (- 1)) = (0, n - 1)"
  "pyslice n (Some 0) (Some (- 2)) = (0, n - 2)"
  "1 \<le> n \<Longrightarrow> pyslice n None (Some 1) = (0, 1)"
  "1 \<le> n \<Longrightarrow> pyslice n (Some (- 1)) None = (n - 1, 1)"
  "2 \<le> n \<Longrightarrow> pyslice n (Some (- 2)) (Some (- 1)) = (n - 2, 1)"
  "2 \<le> n \<Longrightarrow> pyslice n (Some 1) (Some 2) = (1, 1)"
  "1 \<le> n \<Longrightarrow> pyslice n (Some 1) None = (1, n - 1)"
  "2 \<le> n \<Longrightarrow> pyslice n (Some (- 2)) None = (n - 2, 2)"
  "2 \<le> n \<Longrightarrow> pyslice n None (Some 2) = (0, 2)"
  "3 \<le> n \<Longrightarrow> pyslice n (Some (- 3)) (Some (- 1)) = (n - 3, 2)"
  "3 \<le> n \<Longrightarrow> pyslice n (Some 1) (Some 3) = (1, 2)"
  "2 \<le> n \<Longrightarrow> pyslice n (Some 1) (Some (- 1)) = (1, n - 2)"
  "2 \<le> n \<Longrightarrow> pyslice n (Some 2) None = (2, n - 2)"
  by (auto simp: pyslice_def pybound_def Let_def nat_diff_distrib')

lemma shape_of_sl: "shape_of (sl ax lo hi x) = map_option (sl_shape ax lo hi) (shape_of x)"
  by (cases x; cases ax) (auto simp: sl_def shape_of_Ok split: prod.splits)

lemma shape_of_cat2: "shape_of (cat2 ax x y) = cat_shape ax (shape_of x) (shape_of y)"
  by (cases x; cases y; cases ax) (auto simp: cat2_def shape_of_Ok)

lemma set_sl_shape:
  "shape_of y = map_option (sl_shape ax lo hi) (shape_of x) \<Longrightarrow>
   shape_of (set_sl ax lo hi x y) = shape_of x"
  by (cases x; cases y; cases ax) (auto simp: set_sl_def fits_def shape_of_Ok split: prod.splits)

lemma shape_of_whole [simp]: "shape_of (whole x) = shape_of x"
  by (simp add: whole_def)

lemma shape_of_avg:
  "shape_of x = Some (n, m, l) \<Longrightarrow> shape_of (avg AX x) = Some (n - 1, m, l)"
  "shape_of x = Some (n, m, l) \<Longrightarrow> shape_of (avg AY x) = Some (n, m - 1, l)"
  "shape_of x = Some (n, m, l) \<Longrightarrow> shape_of (avg AZ x) = Some (n, m, l - 1)"
  by (auto simp: avg_def shape_arith shape_of_sl pyslice_def pybound_def Let_def)

lemmas shp = shape_arith shape_of_sl pyslice_simps shape_of_cat2 set_sl_shape

lemma sthen_wp:
  assumes "shape_of s = Some t"
    and "\<And>v. shape_of v = Some t \<Longrightarrow> elt v = elt s \<Longrightarrow> Q (f v)"
  shows "Q (sthen s f)"
proof -
  from assms(1) obtain a where "s = Ok a" by (cases s) auto
  then have "sthen s f = f s" by (simp add: sthen_def)
  with assms show ?thesis by simp
qed

lemma sthen_wp':
  assumes "shape_of s = Some t"
    and "\<And>v. shape_of v = Some t \<Longrightarrow> Q (f v)"
  shows "Q (sthen s f)"
  using assms by (rule sthen_wp)

lemma patch_wp:
  assumes "shape_of a = Some (n, m, l)" "2 \<le> (case ax of AX \<Rightarrow> n | AY \<Rightarrow> m | AZ \<Rightarrow> l)"
    and "\<And>v. shape_of v = Some (n, m, l) \<Longrightarrow> Q (k v)"
  shows "Q (patch ax a k)"
  unfolding patch_def
  apply (rule sthen_wp'[where t = "(n, m, l)"])
  subgoal using assms(1,2) by (cases ax) (simp_all add: shp)
  apply (rule sthen_wp'[where t = "(n, m, l)"])
  subgoal using assms(1,2) by (cases ax) (simp_all add: shp)
  apply (rule assms(3))
  apply assumption
  done

lemma periodic_wp:
  assumes "shape_of r = Some (n, m, l)" "shape_of a = Some (n, m, l)" "shape_of d = Some (n, m, l)"
    "2 \<le> (case ax of AX \<Rightarrow> n | AY \<Rightarrow> m | AZ \<Rightarrow> l)"
    and "\<And>r' a' d'. shape_of r' = Some (n, m, l) \<Longrightarrow> shape_of a' = Some (n, m, l) \<Longrightarrow>
           shape_of d' = Some (n, m, l) \<Longrightarrow> Q (k r' a' d')"
  shows "Q (periodic p ax r a d k)"
proof (cases p)
  case True
  have "periodic p ax r a d k =
          patch ax r (\<lambda>r. patch ax a (\<lambda>a. patch ax d (\<lambda>d. k r a d)))"
    using True by (simp add: periodic_def)
  moreover have "Q (patch ax r (\<lambda>r. patch ax a (\<lambda>a. patch ax d (\<lambda>d. k r a d))))"
    apply (rule patch_wp[OF assms(1,4)])
    apply (rule patch_wp[OF assms(2,4)])
    apply (rule patch_wp[OF assms(3,4)])
    apply (rule assms(5); assumption)
    done
  ultimately show ?thesis by simp
next
  case False
  then have "periodic p ax r a d k = k r a d" by (simp add: periodic_def)
  with assms(5)[OF assms(1,2,3)] show ?thesis by simp
qed

lemma wf_field_shapes:
  assumes "wf_field a b c u"
  shows "shape_of (Ok (val u)) = Some (a, b, c)"
    "shape_of (Ok (bnd u W)) = Some (1, b, c)" "shape_of (Ok (bnd u E)) = Some (1, b, c)"
    "shape_of (Ok (bnd u S)) = Some (a, 1, c)" "shape_of (Ok (bnd u N)) = Some (a, 1, c)"
    "shape_of (Ok (bnd u B)) = Some (a, b, 1)" "shape_of (Ok (bnd u T)) = Some (a, b, 1)"
  using assms by (simp_all add: wf_field_def shape_of_Ok')

lemma faces_C_ok:
  assumes "3 \<le> n" "3 \<le> m" "3 \<le> l"
    and "shape_of rho = Some (n, m, l)" "shape_of sx = Some (n, m, l)" "shape_of sy = Some (n, m, l)"
    "shape_of sz = Some (n, m, l)" "shape_of dx = Some (n, m, l)" "shape_of dy = Some (n, m, l)"
    "shape_of dz = Some (n, m, l)"
    and "wf_field (n - 1) m l uf" "wf_field n (m - 1) l vf" "wf_field n m (l - 1) wf'"
  shows "\<exists>F. faces_C pr rho sx sy sz dx dy dz uf vf wf' = Inr F \<and> faces_ok n m l F"
  unfolding faces_C_def
  using assms(1-10) wf_field_shapes[OF assms(11)] wf_field_shapes[OF assms(12)]
    wf_field_shapes[OF assms(13)]
  apply -
  apply (rule sthen_wp'[where t = "(n + 1, m, l)"], simp add: pad_def shape_of_avg shp)
  apply (rule sthen_wp'[where t = "(n, m + 1, l)"], simp add: pad_def shape_of_avg shp)
  apply (rule sthen_wp'[where t = "(n, m, l + 1)"], simp add: pad_def shape_of_avg shp)
  apply (rule sthen_wp'[where t = "(n + 1, m, l)"], simp add: pad_def shape_of_avg shp)
  apply (rule sthen_wp'[where t = "(n, m + 1, l)"], simp add: pad_def shape_of_avg shp)
  apply (rule sthen_wp'[where t = "(n, m, l + 1)"], simp add: pad_def shape_of_avg shp)
  apply (rule sthen_wp'[where t = "(n + 1, m, l)"], simp add: dist_def shape_of_avg shp)
  apply (rule sthen_wp'[where t = "(n, m + 1, l)"], simp add: dist_def shape_of_avg shp)
  apply (rule sthen_wp'[where t = "(n, m, l + 1)"], simp add: dist_def shape_of_avg shp)
  apply (rule periodic_wp[where n = "n + 1" and m = m and l = l], assumption, assumption, assumption, simp)
  apply (rule periodic_wp[where n = n and m = "m + 1" and l = l], assumption, assumption, assumption, simp)
  apply (rule periodic_wp[where n = n and m = m and l = "l + 1"], assumption, assumption, assumption, simp)
  apply (rule sthen_wp'[where t = "(n + 1, m, l)"], simp add: shp)
  apply (rule sthen_wp'[where t = "(n, m + 1, l)"], simp add: shp)
  apply (rule sthen_wp'[where t = "(n, m, l + 1)"], simp add: shp)
  apply (simp add: faces_ok_def)
  done

lemma faces_X_ok:
  assumes "3 \<le> n" "3 \<le> m" "3 \<le> l"
    and "shape_of rho = Some (n, m, l)" "shape_of sx = Some (n, m, l)" "shape_of sy = Some (n, m, l)"
    "shape_of sz = Some (n, m, l)" "shape_of dx = Some (n, m, l)" "shape_of dy = Some (n, m, l)"
    "shape_of dz = Some (n, m, l)"
    and "wf_field (n - 1) m l uf" "wf_field n (m - 1) l vf" "wf_field n m (l - 1) wf'"
  shows "\<exists>F. faces_X pr rho sx sy sz dx dy dz uf vf wf' = Inr F \<and> faces_ok (n - 1) m l F"
  unfolding faces_X_def Let_def
  using assms(1-10) wf_field_shapes[OF assms(11)] wf_field_shapes[OF assms(12)]
    wf_field_shapes[OF assms(13)]
  apply -
  apply (rule sthen_wp'[where t = "(n - 1, m - 1, l)"], simp add: shape_of_avg)
  apply (rule sthen_wp'[where t = "(n - 1, m + 1, l)"], simp add: pad_def shape_of_avg shp)
  apply (rule sthen_wp'[where t = "(n - 1, m, l - 1)"], simp add: shape_of_avg)
  apply (rule sthen_wp'[where t = "(n - 1, m, l + 1)"], simp add: pad_def shape_of_avg shp)
  apply (rule sthen_wp'[where t = "(n - 1, m + 1, l)"], simp add: shape_of_avg shp)
  apply (rule sthen_wp'[where t = "(n - 1, m, l + 1)"], simp add: shape_of_avg shp)
  apply (rule sthen_wp'[where t = "(n, m, l)"], simp)
  apply (rule sthen_wp'[where t = "(n - 1, m + 1, l)"], simp add: dist_def shape_of_avg shp)
  apply (rule sthen_wp'[where t = "(n - 1, m, l + 1)"], simp add: dist_def shape_of_avg shp)
  apply (rule periodic_wp[where n = "n - 1" and m = "m + 1" and l = l], assumption, assumption, assumption, simp)
  apply (rule periodic_wp[where n = "n - 1" and m = m and l = "l + 1"], assumption, assumption, assumption, simp)
  apply (rule sthen_wp'[where t = "(n, m, l)"], simp add: shape_of_avg shp)
  apply (rule sthen_wp'[where t = "(n - 1, m + 1, l)"], simp add: shape_of_avg shp)
  apply (rule sthen_wp'[where t = "(n - 1, m, l + 1)"], simp add: shape_of_avg shp)
  apply (simp add: faces_ok_def)
  done

lemma faces_Y_ok:
  assumes "3 \<le> n" "3 \<le> m" "3 \<le> l"
    and "shape_of rho = Some (n, m, l)" "shape_of sx = Some (n, m, l)" "shape_of sy = Some (n, m, l)"
    "shape_of sz = Some (n, m, l)" "shape_of dx = Some (n, m, l)" "shape_of dy = Some (n, m, l)"
    "shape_of dz = Some (n, m, l)"
    and "wf_field (n - 1) m l uf" "wf_field n (m - 1) l vf" "wf_field n m (l - 1) wf'"
  shows "\<exists>F. faces_Y pr rho sx sy sz dx dy dz uf vf wf' = Inr F \<and> faces_ok n (m - 1) l F"
  unfolding faces_Y_def Let_def
  using assms(1-10) wf_field_shapes[OF assms(11)] wf_field_shapes[OF assms(12)]
    wf_field_shapes[OF assms(13)]
  apply -
  apply (rule sthen_wp'[where t = "(n - 1, m - 1, l)"], simp add: pad_def dist_def shape_of_avg shp)
  apply (rule sthen_wp'[where t = "(n + 1, m - 1, l)"], simp add: pad_def dist_def shape_of_avg shp)
  apply (rule sthen_wp'[where t = "(n, m - 1, l - 1)"], simp add: pad_def dist_def shape_of_avg shp)
  apply (rule sthen_wp'[where t = "(n, m - 1, l + 1)"], simp add: pad_def dist_def shape_of_avg shp)
  apply (rule sthen_wp'[where t = "(n + 1, m - 1, l)"], simp add: pad_def dist_def shape_of_avg shp)
  apply (rule sthen_wp'[where t = "(n, m - 1, l + 1)"], simp add: pad_def dist_def shape_of_avg shp)
  apply (rule sthen_wp'[where t = "(n + 1, m - 1, l)"], simp add: pad_def dist_def shape_of_avg shp)
  apply (rule sthen_wp'[where t = "(n, m, l)"], simp add: pad_def dist_def shape_of_avg shp)
  apply (rule sthen_wp'[where t = "(n, m - 1, l + 1)"], simp add: pad_def dist_def shape_of_avg shp)
  apply (rule periodic_wp[where n = "n + 1" and m = "m - 1" and l = "l"], assumption, assumption, assumption, simp)
  apply (rule periodic_wp[where n = "n" and m = "m - 1" and l = "l + 1"], assumption, assumption, assumption, simp)
  apply (rule sthen_wp'[where t = "(n + 1, m - 1, l)"], simp add: pad_def dist_def shape_of_avg shp)
  apply (rule sthen_wp'[where t = "(n, m, l)"], simp add: pad_def dist_def shape_of_avg shp)
  apply (rule sthen_wp'[where t = "(n, m - 1, l + 1)"], simp add: pad_def dist_def shape_of_avg shp)
  apply (simp add: faces_ok_def)
  done

lemma faces_Z_ok:
  assumes "3 \<le> n" "3 \<le> m" "3 \<le> l"
    and "shape_of rho = Some (n, m, l)" "shape_of sx = Some (n, m, l)" "shape_of sy = Some (n, m, l)"
    "shape_of sz = Some (n, m, l)" "shape_of dx = Some (n, m, l)" "shape_of dy = Some (n, m, l)"
    "shape_of dz = Some (n, m, l)"
    and "wf_field (n - 1) m l uf" "wf_field n (m - 1) l vf" "wf_field n m (l - 1) wf'"
  shows "\<exists>F. faces_Z pr rho sx sy sz dx dy dz uf vf wf' = Inr F \<and> faces_ok n m (l - 1) F"
  unfolding faces_Z_def Let_def
  using assms(1-10) wf_field_shapes[OF assms(11)] wf_field_shapes[OF assms(12)]
    wf_field_shapes[OF assms(13)]
  apply -
  apply (rule sthen_wp'[where t = "(n - 1, m, l - 1)"], simp add: pad_def dist_def shape_of_avg shp)
  apply (rule sthen_wp'[where t = "(n + 1, m, l - 1)"], simp add: pad_def dist_def shape_of_avg shp)
  apply (rule sthen_wp'[where t = "(n, m - 1, l - 1)"], simp add: pad_def dist_def shape_of_avg shp)
  apply (rule sthen_wp'[where t = "(n, m + 1, l - 1)"], simp add: pad_def dist_def shape_of_avg shp)
  apply (rule sthen_wp'[where t = "(n + 1, m, l - 1)"], simp add: pad_def dist_def shape_of_avg shp)
  apply (rule sthen_wp'[where t = "(n, m + 1, l - 1)"], simp add: pad_def dist_def shape_of_avg shp)
  apply (rule sthen_wp'[where t = "(n + 1, m, l - 1)"], simp add: pad_def dist_def shape_of_avg shp)
  apply (rule sthen_wp'[where t = "(n, m + 1, l - 1)"], simp add: pad_def dist_def shape_of_avg shp)
  apply (rule sthen_wp'[where t = "(n, m, l)"], simp add: pad_def dist_def shape_of_avg shp)
  apply (rule periodic_wp[where n = "n + 1" and m = "m" and l = "l - 1"], assumption, assumption, assumption, simp)
  apply (rule periodic_wp[where n = "n" and m = "m + 1" and l = "l - 1"], assumption, assumption, assumption, simp)
  apply (rule sthen_wp'[where t = "(n + 1, m, l - 1)"], simp add: pad_def dist_def shape_of_avg shp)
  apply (rule sthen_wp'[where t = "(n, m + 1, l - 1)"], simp add: pad_def dist_def shape_of_avg shp)
  apply (rule sthen_wp'[where t = "(n, m, l)"], simp add: pad_def dist_def shape_of_avg shp)
  apply (simp add: faces_ok_def)
  done

lemma shape_of_dif:
  "shape_of x = Some (n, m, l) \<Longrightarrow> shape_of (dif AX x) = Some (n - 1, m, l)"
  "shape_of x = Some (n, m, l) \<Longrightarrow> shape_of (dif AY x) = Some (n, m - 1, l)"
  "shape_of x = Some (n, m, l) \<Longrightarrow> shape_of (dif AZ x) = Some (n, m, l - 1)"
  by (auto simp: dif_def shape_arith shape_of_sl pyslice_def pybound_def Let_def)

lemma shape_of_clamp [simp]: "shape_of (clamp TINY d) = shape_of d"
  by (simp add: clamp_def fill_where_def)

lemma shape_of_masks [simp]: "shape_of (ge0 x) = shape_of x" "shape_of (lnot x) = shape_of x"
  by (simp_all add: ge0_def lnot_def)

lemma shape_consecutive:
  assumes "wf_field a b c phi"
  shows "2 \<le> a \<Longrightarrow> (\<not> st \<longrightarrow> 3 \<le> a) \<Longrightarrow>
         shape_of (consecutive AX p st (Ok (bnd phi W)) (Ok (val phi)) (Ok (bnd phi E)))
           = Some (a + 3, b, c)"
    "2 \<le> b \<Longrightarrow> (\<not> st \<longrightarrow> 3 \<le> b) \<Longrightarrow>
         shape_of (consecutive AY p st (Ok (bnd phi S)) (Ok (val phi)) (Ok (bnd phi N)))
           = Some (a, b + 3, c)"
    "2 \<le> c \<Longrightarrow> (\<not> st \<longrightarrow> 3 \<le> c) \<Longrightarrow>
         shape_of (consecutive AZ p st (Ok (bnd phi B)) (Ok (val phi)) (Ok (bnd phi T)))
           = Some (a, b, c + 3)"
  using wf_field_shapes[OF assms]
  by (auto simp: consecutive_def shape_of_dif shp)

lemma slopes_ok:
  assumes F: "faces_ok a b c F" and phi: "wf_field a b c phi"
    and sz: "2 \<le> a" "ps \<noteq> X \<longrightarrow> 3 \<le> a" "2 \<le> b" "ps \<noteq> Y \<longrightarrow> 3 \<le> b"
      "2 \<le> c" "ps \<noteq> Z \<longrightarrow> 3 \<le> c"
  shows "\<exists>G. slopes TINY ps pr phi F = Inr G \<and> grads_ok a b c G"
proof -
  note dx = shape_consecutive(1)[OF phi, of "ps = X" "pr X"]
    and dy = shape_consecutive(2)[OF phi, of "ps = Y" "pr Y"]
    and dz = shape_consecutive(3)[OF phi, of "ps = Z" "pr Z"]
  from F have Fs: "shape_of (u_fac F) = Some (a + 1, b, c)"
    "shape_of (v_fac F) = Some (a, b + 1, c)" "shape_of (w_fac F) = Some (a, b, c + 1)"
    by (simp_all add: faces_ok_def)
  show ?thesis
    unfolding slopes_def
    using sz Fs
    apply -
    apply (rule sthen_wp'[where t = "(a + 3, b, c)"], simp add: dx)
    apply (rule sthen_wp'[where t = "(a, b + 3, c)"], simp add: dy)
    apply (rule sthen_wp'[where t = "(a, b, c + 3)"], simp add: dz)
    apply (rule sthen_wp'[where t = "(a + 1, b, c)"], simp add: shp)
    apply (rule sthen_wp'[where t = "(a + 1, b, c)"], simp add: shp)
    apply (rule sthen_wp'[where t = "(a, b + 1, c)"], simp add: shp)
    apply (rule sthen_wp'[where t = "(a, b + 1, c)"], simp add: shp)
    apply (rule sthen_wp'[where t = "(a, b, c + 1)"], simp add: shp)
    apply (rule sthen_wp'[where t = "(a, b, c + 1)"], simp add: shp)
    apply (rule sthen_wp'[where t = "(a + 1, b, c)"], simp)
    apply (rule sthen_wp'[where t = "(a + 1, b, c)"], simp)
    apply (rule sthen_wp'[where t = "(a, b + 1, c)"], simp)
    apply (rule sthen_wp'[where t = "(a, b + 1, c)"], simp)
    apply (rule sthen_wp'[where t = "(a, b, c + 1)"], simp)
    apply (rule sthen_wp'[where t = "(a, b, c + 1)"], simp)
    apply (rule sthen_wp'[where t = "(a + 1, b, c)"], simp add: shp)
    apply (rule sthen_wp'[where t = "(a, b + 1, c)"], simp add: shp)
    apply (rule sthen_wp'[where t = "(a, b, c + 1)"], simp add: shp)
    apply (simp add: grads_ok_def)
    done
qed

lemma sthen_Inr: "sthen s f = Inr r \<longleftrightarrow> (\<exists>a. s = Ok a \<and> f (Ok a) = Inr r)"
  by (cases s) (auto simp: sthen_def)

lemma slopes_Inr:
  "slopes TINY ps pr phi F = Inr G \<Longrightarrow> grads_eqs TINY ps pr phi F G"
  unfolding slopes_def sthen_Inr grads_eqs_def
  by (elim exE conjE) auto

lemma sthen_ok: "shape_of s \<noteq> None \<Longrightarrow> sthen s f = f s"
  by (cases s) (auto simp: sthen_def)

lemma athen_ok: "shape_of s \<noteq> None \<Longrightarrow> athen s f = f (arr_of s)"
  by (cases s) (auto simp: athen_def arr_of_def)

lemma Ok_arr_of: "shape_of s \<noteq> None \<Longrightarrow> Ok (arr_of s) = s"
  by (cases s) (auto simp: arr_of_def)

lemma el_arr_of: "el (arr_of s) = elt s"
  by (cases s) (auto simp: arr_of_def elt_def)

lemma shape_arr_of: "shape_of s = Some t \<Longrightarrow> shape (arr_of s) = t"
  by (cases s) (auto simp: arr_of_def shape_def shape_of_Ok)

lemma ethen_Inr [simp]: "ethen (Inr a) f = f a"
  by (simp add: ethen_def)

lemma val_shape_cases:
  "val_shape C n m l = (n, m, l)" "val_shape X n m l = (n - 1, m, l)"
  "val_shape Y n m l = (n, m - 1, l)" "val_shape Z n m l = (n, m, l - 1)"
  "val_shape Unsupported n m l = (n, m, l)"
  by (simp_all add: val_shape_def)

lemma faces_of_ok:
  assumes wf: "wf_inputs exchange rho phi uvwf dxyz" and ps: "pos phi \<noteq> Unsupported"
    and sh: "shape rho = (n, m, l)" "val_shape (pos phi) n m l = (a, b, c)"
  shows "\<exists>F. faces_of exchange rho phi uvwf dxyz = Inr F \<and> faces_ok a b c F"
proof -
  obtain uf vf wf' where uvwf: "uvwf = (uf, vf, wf')" by (cases uvwf) auto
  obtain dx dy dz where dxyz: "dxyz = (dx, dy, dz)" by (cases dxyz) auto
  from wf sh have n: "3 \<le> n" "3 \<le> m" "3 \<le> l"
    and d: "shape dx = (n, m, l)" "shape dy = (n, m, l)" "shape dz = (n, m, l)"
    and v: "wf_field (n - 1) m l (exchange uf)" "wf_field n (m - 1) l (exchange vf)"
      "wf_field n m (l - 1) (exchange wf')"
    by (simp_all add: wf_inputs_def uvwf dxyz)
  have s: "shape_of (Ok rho) = Some (n, m, l)" "shape_of (Ok dx) = Some (n, m, l)"
    "shape_of (Ok dy) = Some (n, m, l)" "shape_of (Ok dz) = Some (n, m, l)"
    using sh(1) d by (simp_all add: shape_of_Ok')
  have ss: "shape_of (Ok dy * Ok dz) = Some (n, m, l)" "shape_of (Ok dx * Ok dz) = Some (n, m, l)"
    "shape_of (Ok dx * Ok dy) = Some (n, m, l)"
    using s by (simp_all add: shape_arith)
  note fc = faces_C_ok[OF n s(1) ss s(2,3,4) v] faces_X_ok[OF n s(1) ss s(2,3,4) v]
    faces_Y_ok[OF n s(1) ss s(2,3,4) v] faces_Z_ok[OF n s(1) ss s(2,3,4) v]
  show ?thesis
    using ps sh(2) fc
    by (cases "pos phi") (simp_all add: faces_of_def uvwf dxyz reconstruct_def val_shape_cases)
qed

section \<open>The clamp of the consecutive differences\<close>

lemma elt_arith:
  "shape_of y = shape_of x \<Longrightarrow> shape_of x \<noteq> None \<Longrightarrow> elt (x + y) = (\<lambda>i j k. elt x i j k + elt y i j k)"
  "shape_of y = shape_of x \<Longrightarrow> shape_of x \<noteq> None \<Longrightarrow> elt (x - y) = (\<lambda>i j k. elt x i j k - elt y i j k)"
  "shape_of y = shape_of x \<Longrightarrow> shape_of x \<noteq> None \<Longrightarrow> elt (x * y) = (\<lambda>i j k. elt x i j k * elt y i j k)"
  "shape_of y = shape_of x \<Longrightarrow> shape_of x \<noteq> None \<Longrightarrow> elt (x / y) = (\<lambda>i j k. elt x i j k / elt y i j k)"
  "shape_of x \<noteq> None \<Longrightarrow> elt (abs x) = (\<lambda>i j k. \<bar>elt x i j k\<bar>)"
  "shape_of x \<noteq> None \<Longrightarrow> elt (x * sc c) = (\<lambda>i j k. elt x i j k * c)"
  "shape_of x \<noteq> None \<Longrightarrow> elt (sc c * x) = (\<lambda>i j k. c * elt x i j k)"
  "shape_of x \<noteq> None \<Longrightarrow> elt (sc c - x) = (\<lambda>i j k. c - elt x i j k)"
  "shape_of x \<noteq> None \<Longrightarrow> elt (sc c + x) = (\<lambda>i j k. c + elt x i j k)"
  "shape_of x \<noteq> None \<Longrightarrow> elt (x / sc c) = (\<lambda>i j k. elt x i j k / c)"
  by (simp_all add: plus_res_def minus_res_def times_res_def divide_res_def abs_res_def
      elt_lift2 elt_lift2_sc elt_lift1)

lemma elt_clamp:
  "shape_of d \<noteq> None \<Longrightarrow>
   elt (clamp TINY d) = (\<lambda>i j k.
     let v = (if - TINY < elt d i j k \<and> elt d i j k \<le> 0 then - TINY else elt d i j k)
     in if 0 \<le> v \<and> v < TINY then TINY else v)"
  by (cases d) (auto simp: clamp_def fill_where_def lift1_def Let_def intro!: ext)

lemma elt_masks:
  "shape_of x \<noteq> None \<Longrightarrow> elt (ge0 x) = (\<lambda>i j k. if 0 \<le> elt x i j k then 1 else 0)"
  "shape_of x \<noteq> None \<Longrightarrow> elt (lnot x) = (\<lambda>i j k. if elt x i j k = 0 then 1 else 0)"
  by (simp_all add: ge0_def lnot_def elt_lift1)

lemma elt_whole [simp]: "elt (whole x) = elt x"
  by (cases x) (simp_all add: whole_def lift1_def elt_def)

lemma elt_sl:
  "elt (sl AX lo hi x) i j k = elt x (fst (pyslice (dim_of AX x) lo hi) + i) j k"
  "elt (sl AY lo hi x) i j k = elt x i (fst (pyslice (dim_of AY x) lo hi) + j) k"
  "elt (sl AZ lo hi x) i j k = elt x i j (fst (pyslice (dim_of AZ x) lo hi) + k)"
  by (cases x; simp add: sl_def dim_of_def elt_def shape_of_Ok split: prod.splits)+

lemma clamp_scalar:
  fixes v :: real
  assumes "0 < t"
  shows "t \<le> \<bar>let w = (if - t < v \<and> v \<le> 0 then - t else v) in if 0 \<le> w \<and> w < t then t else w\<bar>"
    "v < 0 \<Longrightarrow> (let w = (if - t < v \<and> v \<le> 0 then - t else v) in if 0 \<le> w \<and> w < t then t else w) < 0"
    "0 < v \<Longrightarrow> 0 < (let w = (if - t < v \<and> v \<le> 0 then - t else v) in if 0 \<le> w \<and> w < t then t else w)"
  using assms by (auto simp: Let_def)

lemma slopes_Inr_ok:
  assumes "slopes TINY ps pr phi F = Inr G"
  shows "shape_of (d_x G) \<noteq> None \<and> shape_of (d_y G) \<noteq> None \<and> shape_of (d_z G) \<noteq> None \<and>
    shape_of (flow_we G) \<noteq> None \<and> shape_of (flow_sn G) \<noteq> None \<and>
    shape_of (flow_bt G) \<noteq> None"
  using assms unfolding slopes_def sthen_Inr
  by (elim exE conjE) (auto simp: shape_of_Ok)

lemma safe_axis:
  assumes t: "0 < TINY" and d: "d = clamp TINY raw" "shape_of d \<noteq> None"
    and r: "r_p = sl ax (Some 1) (Some (- 1)) d / sl ax (Some 0) (Some (- 2)) d"
      "r_n = sl ax (Some 2) None d / sl ax (Some 1) (Some (- 1)) d"
  shows "safe_differences TINY ax raw d r_p r_n"
proof -
  from d have raw: "shape_of raw \<noteq> None" by simp
  have e: "\<And>i j k. TINY \<le> \<bar>elt d i j k\<bar>"
    "\<And>i j k. elt raw i j k < 0 \<Longrightarrow> elt d i j k < 0"
    "\<And>i j k. 0 < elt raw i j k \<Longrightarrow> 0 < elt d i j k"
    unfolding d(1) elt_clamp[OF raw] using clamp_scalar[OF t] by blast+
  have "\<And>i j k. TINY \<le> \<bar>elt (sl ax lo hi d) i j k\<bar>" for lo hi
    by (cases ax) (simp_all add: elt_sl e(1))
  with e r d raw show ?thesis
    unfolding safe_differences_def by simp
qed

lemma wf0:
  "wf_inputs id grid0 phi0 uvwf0 (grid0, grid0, grid0)"
  "wf_inputs id grid0 one0 uvwf0 (grid0, grid0, grid0)"
  "pos phi0 = C" "pos one0 = C" "shape grid0 = (3, 3, 3)"
  by (simp_all add: wf_inputs_def grid0_def phi0_def one0_def uvwf0_def field_of_def cst_def
      shape_def val_shape_def wf_field_def)

lemma wf_inputs_field:
  assumes "wf_inputs exchange rho phi uvwf dxyz" "shape rho = (n, m, l)"
    "val_shape (pos phi) n m l = (a, b, c)"
  shows "wf_field a b c (exchange phi)" "3 \<le> n" "3 \<le> m" "3 \<le> l"
  using assms by (auto simp: wf_inputs_def split: prod.splits)

lemma val_shape_sizes:
  assumes "val_shape ps n m l = (a, b, c)" "3 \<le> n" "3 \<le> m" "3 \<le> l"
  shows "2 \<le> a" "ps \<noteq> X \<longrightarrow> 3 \<le> a" "2 \<le> b" "ps \<noteq> Y \<longrightarrow> 3 \<le> b" "2 \<le> c" "ps \<noteq> Z \<longrightarrow> 3 \<le> c"
  using assms by (auto simp: val_shape_def split: if_splits)

text \<open>The face arrays and gradients of a call with well-shaped arguments.\<close>

lemma locals_ok:
  assumes wf: "wf_inputs exchange rho phi uvwf dxyz" and ps: "pos phi \<noteq> Unsupported"
    and sh: "shape rho = (n, m, l)" "val_shape (pos phi) n m l = (a, b, c)"
  shows "\<exists>F G. faces_of exchange rho phi uvwf dxyz = Inr F \<and> faces_ok a b c F \<and>
           slopes TINY (pos phi) (per phi) (exchange phi) F = Inr G \<and> grads_ok a b c G \<and>
           grads_eqs TINY (pos phi) (per phi) (exchange phi) F G"
proof -
  from faces_of_ok[OF wf ps sh] obtain F
    where F: "faces_of exchange rho phi uvwf dxyz = Inr F" "faces_ok a b c F" by blast
  note f = wf_inputs_field[OF wf sh]
  from slopes_ok[OF F(2) f(1) val_shape_sizes[OF sh(2) f(2,3,4)]] obtain G
    where G: "slopes TINY (pos phi) (per phi) (exchange phi) F = Inr G" "grads_ok a b c G"
    by blast
  from F G slopes_Inr[OF G(1)] show ?thesis by blast
qed

lemma zero_axis:
  assumes t: "0 < TINY" and d: "d = clamp TINY raw" "shape_of d \<noteq> None"
  shows "zero_goes_negative TINY raw d"
proof -
  from d have raw: "shape_of raw \<noteq> None" by simp
  show ?thesis
    unfolding zero_goes_negative_def d(1) elt_clamp[OF raw]
    using t raw by (auto simp: Let_def)
qed

text \<open>
  C7. After the clamp every difference has magnitude at least TINY and keeps the sign
  of a non-zero difference, along each of the three axes, and each gradient ratio is a
  quotient whose divisor is a slice of the clamped differences, so that no divisor is
  zero.
\<close>

theorem clamp_prevents_division_by_zero:
  assumes "0 < TINY" and "slopes TINY ps pr phi F = Inr G"
  shows "safe_differences TINY AX
           (consecutive AX (pr X) (ps = X) (Ok (bnd phi W)) (Ok (val phi)) (Ok (bnd phi E)))
           (d_x G) (r_x_we G) (r_x_ew G) \<and>
         safe_differences TINY AY
           (consecutive AY (pr Y) (ps = Y) (Ok (bnd phi S)) (Ok (val phi)) (Ok (bnd phi N)))
           (d_y G) (r_y_sn G) (r_y_ns G) \<and>
         safe_differences TINY AZ
           (consecutive AZ (pr Z) (ps = Z) (Ok (bnd phi B)) (Ok (val phi)) (Ok (bnd phi T)))
           (d_z G) (r_z_bt G) (r_z_tb G)"
proof -
  from slopes_Inr[OF assms(2)] have e: "grads_eqs TINY ps pr phi F G" .
  note ok = slopes_Inr_ok[OF assms(2)]
  show ?thesis
    using e ok by (intro conjI safe_axis[OF assms(1)]) (simp_all add: grads_eqs_def)
qed

theorem clamp_prevents_division_by_zero_witness:
  "\<exists>F G. slopes (1 / 1000) (pos phi0) (per phi0) phi0 F = Inr G \<and> (0::real) < 1 / 1000 \<and>
     safe_differences (1 / 1000) AX
       (consecutive AX (per phi0 X) (pos phi0 = X)
          (Ok (bnd phi0 W)) (Ok (val phi0)) (Ok (bnd phi0 E)))
       (d_x G) (r_x_we G) (r_x_ew G)"
proof -
  from locals_ok[OF wf0(1) _ wf0(5), of 3 3 3 "1 / 1000"] obtain F G
    where G: "slopes (1 / 1000) (pos phi0) (per phi0) (id phi0) F = Inr G"
    by (auto simp: wf0 val_shape_cases)
  have t: "(0::real) < 1 / 1000" by simp
  from clamp_prevents_division_by_zero[OF t, of "pos phi0" "per phi0" phi0 F G] G t
  show ?thesis by auto
qed

text \<open>
  C9. A consecutive difference that is exactly zero is clamped to minus TINY, like
  every value between minus TINY and zero; only the values strictly between zero and
  TINY become plus TINY. This holds for the differences along each axis, which are the
  ones that enter the gradient ratios.
\<close>

theorem zero_difference_clamped_negative:
  assumes "0 < TINY" and "slopes TINY ps pr phi F = Inr G"
  shows "zero_goes_negative TINY
           (consecutive AX (pr X) (ps = X) (Ok (bnd phi W)) (Ok (val phi)) (Ok (bnd phi E)))
           (d_x G) \<and>
         zero_goes_negative TINY
           (consecutive AY (pr Y) (ps = Y) (Ok (bnd phi S)) (Ok (val phi)) (Ok (bnd phi N)))
           (d_y G) \<and>
         zero_goes_negative TINY
           (consecutive AZ (pr Z) (ps = Z) (Ok (bnd phi B)) (Ok (val phi)) (Ok (bnd phi T)))
           (d_z G) \<and>
         r_x_we G = sl AX (Some 1) (Some (- 1)) (d_x G) / sl AX (Some 0) (Some (- 2)) (d_x G) \<and>
         r_x_ew G = sl AX (Some 2) None (d_x G) / sl AX (Some 1) (Some (- 1)) (d_x G) \<and>
         r_y_sn G = sl AY (Some 1) (Some (- 1)) (d_y G) / sl AY (Some 0) (Some (- 2)) (d_y G) \<and>
         r_y_ns G = sl AY (Some 2) None (d_y G) / sl AY (Some 1) (Some (- 1)) (d_y G) \<and>
         r_z_bt G = sl AZ (Some 1) (Some (- 1)) (d_z G) / sl AZ (Some 0) (Some (- 2)) (d_z G) \<and>
         r_z_tb G = sl AZ (Some 2) None (d_z G) / sl AZ (Some 1) (Some (- 1)) (d_z G)"
proof -
  from slopes_Inr[OF assms(2)] have e: "grads_eqs TINY ps pr phi F G" .
  note ok = slopes_Inr_ok[OF assms(2)]
  show ?thesis
    using e ok by (intro conjI zero_axis[OF assms(1)]) (simp_all add: grads_eqs_def)
qed


lemma raw_one0:
  "elt (consecutive AX (per one0 X) (pos one0 = X)
          (Ok (bnd one0 W)) (Ok (val one0)) (Ok (bnd one0 E))) 0 0 0 = 0"
  by (simp add: consecutive_def one0_def field_of_def cst_def dif_def cat2_def sl_def
      pyslice_def pybound_def minus_res_def lift2_def)

theorem zero_difference_clamped_negative_witness:
  "\<exists>F G. slopes (1 / 1000) (pos one0) (per one0) one0 F = Inr G \<and> (0::real) < 1 / 1000 \<and>
     zero_goes_negative (1 / 1000)
       (consecutive AX (per one0 X) (pos one0 = X)
          (Ok (bnd one0 W)) (Ok (val one0)) (Ok (bnd one0 E)))
       (d_x G) \<and>
     elt (d_x G) 0 0 0 = - (1 / 1000)"
proof -
  from locals_ok[OF wf0(2) _ wf0(5), of 3 3 3 "1 / 1000"] obtain F G
    where G: "slopes (1 / 1000) (pos one0) (per one0) (id one0) F = Inr G"
    by (auto simp: wf0 val_shape_cases)
  have t: "(0::real) < 1 / 1000" by simp
  from zero_difference_clamped_negative[OF t, of "pos one0" "per one0" one0 F G] G
  have z: "zero_goes_negative (1 / 1000)
       (consecutive AX (per one0 X) (pos one0 = X)
          (Ok (bnd one0 W)) (Ok (val one0)) (Ok (bnd one0 E))) (d_x G)"
    by simp
  then have "elt (d_x G) 0 0 0 = - (1 / 1000)"
    unfolding zero_goes_negative_def using raw_one0 by blast
  with z G t show ?thesis by auto
qed

section \<open>The flow masks\<close>

lemma flow_axis:
  assumes s: "shape_of u = Some s" "shape_of r_p = Some s" "shape_of r_n = Some s"
      "shape_of dl = Some s" "shape_of dh = Some s"
    and fp: "fp = ge0 u" and fn: "fn = lnot fp" and r: "r = r_p * fp + r_n * fn"
  shows "flow_selection u fp fn r_p r_n r dl dh (dl * u * fp + dh * u * fn)"
proof -
  have sh: "shape_of fp = Some s" "shape_of fn = Some s"
    using s by (simp_all add: fp fn)
  have e: "elt fp = (\<lambda>i j k. if 0 \<le> elt u i j k then 1 else 0)"
    "elt fn = (\<lambda>i j k. if 0 \<le> elt u i j k then 0 else 1)"
    using s sh by (auto simp: fp fn elt_masks intro!: ext)
  have r': "shape_of r = Some s"
    "elt r = (\<lambda>i j k. elt r_p i j k * elt fp i j k + elt r_n i j k * elt fn i j k)"
    using s sh by (simp_all add: r shape_arith elt_arith)
  have f: "shape_of (dl * u * fp + dh * u * fn) = Some s"
    "elt (dl * u * fp + dh * u * fn) =
       (\<lambda>i j k. elt dl i j k * elt u i j k * elt fp i j k + elt dh i j k * elt u i j k * elt fn i j k)"
    using s sh by (simp_all add: shape_arith elt_arith)
  show ?thesis
    unfolding flow_selection_def using s sh r' f by (simp add: e)
qed

lemma cat_pair [simp]: "cat ax [x, y] = cat2 ax x y"
  by simp

lemma donor_shapes:
  assumes "wf_field a b c phi"
  shows "shape_of (cat AX [Ok (bnd phi W), Ok (val phi)]) = Some (a + 1, b, c)"
    "shape_of (cat AX [Ok (val phi), Ok (bnd phi E)]) = Some (a + 1, b, c)"
    "shape_of (cat AY [Ok (bnd phi S), Ok (val phi)]) = Some (a, b + 1, c)"
    "shape_of (cat AY [Ok (val phi), Ok (bnd phi N)]) = Some (a, b + 1, c)"
    "shape_of (cat AZ [Ok (bnd phi B), Ok (val phi)]) = Some (a, b, c + 1)"
    "shape_of (cat AZ [Ok (val phi), Ok (bnd phi T)]) = Some (a, b, c + 1)"
  using wf_field_shapes[OF assms] by (simp_all add: shape_of_cat2)

text \<open>
  C10. At every face exactly one flow-direction mask is active: the positive one where
  the face velocity is greater than or equal to zero, its complement elsewhere. So a
  face with zero normal velocity counts as positive flow, and there the gradient ratio
  of the positive direction and the donor value of the lower-index cell are used.
\<close>

theorem one_flow_direction_per_face:
  assumes "wf_inputs exchange rho phi uvwf dxyz" and "pos phi \<noteq> Unsupported"
  shows "\<exists>F G. faces_of exchange rho phi uvwf dxyz = Inr F \<and>
           slopes TINY (pos phi) (per phi) (exchange phi) F = Inr G \<and>
           flow_selection (u_fac F) (flow_we G) (flow_ew G) (r_x_we G) (r_x_ew G) (r_x G)
             (cat_x [Ok (bnd (exchange phi) W), Ok (val (exchange phi))])
             (cat_x [Ok (val (exchange phi)), Ok (bnd (exchange phi) E)])
             (upwind_flux AX (Ok (bnd (exchange phi) W)) (Ok (val (exchange phi)))
                (Ok (bnd (exchange phi) E)) (u_fac F) (flow_we G) (flow_ew G)) \<and>
           flow_selection (v_fac F) (flow_sn G) (flow_ns G) (r_y_sn G) (r_y_ns G) (r_y G)
             (cat_y [Ok (bnd (exchange phi) S), Ok (val (exchange phi))])
             (cat_y [Ok (val (exchange phi)), Ok (bnd (exchange phi) N)])
             (upwind_flux AY (Ok (bnd (exchange phi) S)) (Ok (val (exchange phi)))
                (Ok (bnd (exchange phi) N)) (v_fac F) (flow_sn G) (flow_ns G)) \<and>
           flow_selection (w_fac F) (flow_bt G) (flow_tb G) (r_z_bt G) (r_z_tb G) (r_z G)
             (cat_z [Ok (bnd (exchange phi) B), Ok (val (exchange phi))])
             (cat_z [Ok (val (exchange phi)), Ok (bnd (exchange phi) T)])
             (upwind_flux AZ (Ok (bnd (exchange phi) B)) (Ok (val (exchange phi)))
                (Ok (bnd (exchange phi) T)) (w_fac F) (flow_bt G) (flow_tb G))"
proof -
  obtain n m l where sh: "shape rho = (n, m, l)" by (cases "shape rho") auto
  obtain a b c where vs: "val_shape (pos phi) n m l = (a, b, c)"
    by (cases "val_shape (pos phi) n m l") auto
  from locals_ok[OF assms sh vs, of TINY] obtain F G
    where F: "faces_of exchange rho phi uvwf dxyz = Inr F" "faces_ok a b c F"
      and G: "slopes TINY (pos phi) (per phi) (exchange phi) F = Inr G" "grads_ok a b c G"
        "grads_eqs TINY (pos phi) (per phi) (exchange phi) F G"
    by blast
  note d = donor_shapes[OF wf_inputs_field(1)[OF assms(1) sh vs]]
  have x: "flow_selection (u_fac F) (flow_we G) (flow_ew G) (r_x_we G) (r_x_ew G) (r_x G)
             (cat_x [Ok (bnd (exchange phi) W), Ok (val (exchange phi))])
             (cat_x [Ok (val (exchange phi)), Ok (bnd (exchange phi) E)])
             (upwind_flux AX (Ok (bnd (exchange phi) W)) (Ok (val (exchange phi)))
                (Ok (bnd (exchange phi) E)) (u_fac F) (flow_we G) (flow_ew G))"
    unfolding upwind_flux_def
    using F(2) G(2,3) d(1,2)
    by (intro flow_axis[where s = "(a + 1, b, c)"]) (simp_all add: faces_ok_def grads_ok_def grads_eqs_def)
  have y: "flow_selection (v_fac F) (flow_sn G) (flow_ns G) (r_y_sn G) (r_y_ns G) (r_y G)
             (cat_y [Ok (bnd (exchange phi) S), Ok (val (exchange phi))])
             (cat_y [Ok (val (exchange phi)), Ok (bnd (exchange phi) N)])
             (upwind_flux AY (Ok (bnd (exchange phi) S)) (Ok (val (exchange phi)))
                (Ok (bnd (exchange phi) N)) (v_fac F) (flow_sn G) (flow_ns G))"
    unfolding upwind_flux_def
    using F(2) G(2,3) d(3,4)
    by (intro flow_axis[where s = "(a, b + 1, c)"]) (simp_all add: faces_ok_def grads_ok_def grads_eqs_def)
  have z: "flow_selection (w_fac F) (flow_bt G) (flow_tb G) (r_z_bt G) (r_z_tb G) (r_z G)
             (cat_z [Ok (bnd (exchange phi) B), Ok (val (exchange phi))])
             (cat_z [Ok (val (exchange phi)), Ok (bnd (exchange phi) T)])
             (upwind_flux AZ (Ok (bnd (exchange phi) B)) (Ok (val (exchange phi)))
                (Ok (bnd (exchange phi) T)) (w_fac F) (flow_bt G) (flow_tb G))"
    unfolding upwind_flux_def
    using F(2) G(2,3) d(5,6)
    by (intro flow_axis[where s = "(a, b, c + 1)"]) (simp_all add: faces_ok_def grads_ok_def grads_eqs_def)
  from F(1) G(1) x y z show ?thesis by blast
qed

theorem one_flow_direction_per_face_witness:
  "wf_inputs id grid0 phi0 uvwf0 (grid0, grid0, grid0) \<and> pos phi0 \<noteq> Unsupported \<and>
   (\<exists>F G. faces_of id grid0 phi0 uvwf0 (grid0, grid0, grid0) = Inr F \<and>
      slopes (1 / 1000) (pos phi0) (per phi0) phi0 F = Inr G \<and>
      flow_selection (u_fac F) (flow_we G) (flow_ew G) (r_x_we G) (r_x_ew G) (r_x G)
        (cat_x [Ok (bnd phi0 W), Ok (val phi0)]) (cat_x [Ok (val phi0), Ok (bnd phi0 E)])
        (upwind_flux AX (Ok (bnd phi0 W)) (Ok (val phi0)) (Ok (bnd phi0 E))
           (u_fac F) (flow_we G) (flow_ew G)))"
proof -
  have p: "pos phi0 \<noteq> Unsupported" by (simp add: wf0)
  from one_flow_direction_per_face[OF wf0(1) p, of "1 / 1000"] wf0(1) p
  show ?thesis by auto
qed

section \<open>The limited and the upwind flux divergence\<close>

lemma shape_of_psi:
  "shape_of (psi_upwind r) = shape_of r" "shape_of (psi_minmod r) = shape_of r"
  "shape_of (psi_superbee r) = shape_of r" "shape_of (psi_koren r) = shape_of r"
  by (simp_all add: psi_upwind_def psi_minmod_def psi_superbee_def psi_koren_def mx_def mn_def
      mx3_def mn3_def zeros_def ones_def shape_arith shape_lift2)

lemma apply_limiter_ok:
  assumes "limiter \<in> {''upwind'', ''minmod'', ''superbee'', ''koren''}"
    and "shape_of rx \<noteq> None" "shape_of ry \<noteq> None" "shape_of rz \<noteq> None"
  shows "\<exists>psi. apply_limiter limiter rx ry rz = Inr psi \<and>
           shape_of (fst psi) = shape_of rx \<and> shape_of (fst (snd psi)) = shape_of ry \<and>
           shape_of (snd (snd psi)) = shape_of rz"
  using assms by (auto simp: apply_limiter_def sthen_ok shape_of_psi)

lemma apply_limiter_upwind:
  assumes "shape_of rx \<noteq> None" "shape_of ry \<noteq> None" "shape_of rz \<noteq> None"
  shows "apply_limiter ''upwind'' rx ry rz = Inr (psi_upwind rx, psi_upwind ry, psi_upwind rz)"
  using assms by (simp add: apply_limiter_def sthen_ok shape_of_psi)

lemma shape_inplace: "shape_of y = shape_of x \<Longrightarrow> shape_of (inplace f x y) = shape_of x"
  by (cases x; cases y) (auto simp: inplace_def fits_def lift2_def shape_of_Ok)

lemma elt_inplace:
  "shape_of y = shape_of x \<Longrightarrow> shape_of x \<noteq> None \<Longrightarrow>
   elt (inplace f x y) = (\<lambda>i j k. f (elt x i j k) (elt y i j k))"
  by (cases x; cases y) (auto simp: inplace_def fits_def lift2_def shape_of_Ok)

lemma shape_upwind_flux:
  assumes "shape_of (cat ax [lo, v]) = Some s" "shape_of (cat ax [v, hi]) = Some s"
    "shape_of u = Some s" "shape_of fp = Some s" "shape_of fn = Some s"
  shows "shape_of (upwind_flux ax lo v hi u fp fn) = Some s"
  using assms unfolding upwind_flux_def by (simp add: shape_arith)

lemma shape_correction:
  assumes "shape_of u = Some s" "shape_of fp = Some s" "shape_of fn = Some s"
    "shape_of del = Some s" "shape_of psi = Some s"
    "shape_of (sl ax (Some 0) (Some (- 2)) d) = Some s"
    "shape_of (sl ax (Some 1) (Some (- 1)) d) = Some s"
  shows "shape_of (sc 0.5 * abs u * (sc 1 - abs u * sc dt / del)
       * (whole psi * sl ax (Some 0) (Some (- 2)) d * fp
          + whole psi * sl ax (Some 1) (Some (- 1)) d * fn)) = Some s"
  using assms by (simp add: shape_arith)

lemma limited_flux_split:
  "limited_flux ax lo v hi u fp fn dt del psi d =
     upwind_flux ax lo v hi u fp fn
     + sc 0.5 * abs u * (sc 1 - abs u * sc dt / del)
       * (whole psi * sl ax (Some 0) (Some (- 2)) d * fp
          + whole psi * sl ax (Some 1) (Some (- 1)) d * fn)"
  by (simp add: limited_flux_def upwind_flux_def)

lemma shape_limited_flux:
  assumes "shape_of (cat ax [lo, v]) = Some s" "shape_of (cat ax [v, hi]) = Some s"
    "shape_of u = Some s" "shape_of fp = Some s" "shape_of fn = Some s"
    "shape_of del = Some s" "shape_of psi = Some s"
    "shape_of (sl ax (Some 0) (Some (- 2)) d) = Some s"
    "shape_of (sl ax (Some 1) (Some (- 1)) d) = Some s"
  shows "shape_of (limited_flux ax lo v hi u fp fn dt del psi d) = Some s"
  unfolding limited_flux_split
  using shape_upwind_flux[OF assms(1-5)] shape_correction[OF assms(3-9)]
  by (simp add: shape_arith)

lemma res_eqI:
  assumes "shape_of x = shape_of y" "shape_of y \<noteq> None" "elt x = elt y"
  shows "x = y"
  using assms by (cases x; cases y) (auto simp: shape_of_Ok intro: arr.expand)

lemma limited_upwind:
  assumes "shape_of (cat ax [lo, v]) = Some s" "shape_of (cat ax [v, hi]) = Some s"
    "shape_of u = Some s" "shape_of fp = Some s" "shape_of fn = Some s"
    "shape_of del = Some s" "shape_of r = Some s"
    "shape_of (sl ax (Some 0) (Some (- 2)) d) = Some s"
    "shape_of (sl ax (Some 1) (Some (- 1)) d) = Some s"
  shows "limited_flux ax lo v hi u fp fn dt del (psi_upwind r) d = upwind_flux ax lo v hi u fp fn"
proof -
  let ?U = "upwind_flux ax lo v hi u fp fn"
  let ?Z = "sc 0.5 * abs u * (sc 1 - abs u * sc dt / del)
       * (whole (psi_upwind r) * sl ax (Some 0) (Some (- 2)) d * fp
          + whole (psi_upwind r) * sl ax (Some 1) (Some (- 1)) d * fn)"
  have p: "shape_of (psi_upwind r) = Some s" using assms(7) by (simp add: shape_of_psi)
  have pe: "elt (psi_upwind r) = (\<lambda>i j k. 0)"
    using assms(7) by (simp add: psi_upwind_def elt_arith)
  have U: "shape_of ?U = Some s" by (rule shape_upwind_flux[OF assms(1-5)])
  have Z: "shape_of ?Z = Some s" by (rule shape_correction[OF assms(3-6) p assms(8,9)])
  have Ze: "elt ?Z = (\<lambda>i j k. 0)"
    using assms p by (simp add: elt_arith shape_arith pe)
  have "?U + ?Z = ?U"
    using U Z Ze by (intro res_eqI) (simp_all add: shape_arith elt_arith)
  then show ?thesis by (simp add: limited_flux_split)
qed


text \<open>The slices of the clamped differences that enter the fluxes.\<close>

lemma d_slices:
  assumes "grads_ok a b c G"
  shows "shape_of (sl AX (Some 0) (Some (- 2)) (d_x G)) = Some (a + 1, b, c)"
    "shape_of (sl AX (Some 1) (Some (- 1)) (d_x G)) = Some (a + 1, b, c)"
    "shape_of (sl AY (Some 0) (Some (- 2)) (d_y G)) = Some (a, b + 1, c)"
    "shape_of (sl AY (Some 1) (Some (- 1)) (d_y G)) = Some (a, b + 1, c)"
    "shape_of (sl AZ (Some 0) (Some (- 2)) (d_z G)) = Some (a, b, c + 1)"
    "shape_of (sl AZ (Some 1) (Some (- 1)) (d_z G)) = Some (a, b, c + 1)"
  using assms by (simp_all add: grads_ok_def shp)

lemma flux_shapes:
  assumes F: "faces_ok a b c F" and G: "grads_ok a b c G" and phi: "wf_field a b c phi"
    and psi: "shape_of (fst psi) = Some (a + 1, b, c)" "shape_of (fst (snd psi)) = Some (a, b + 1, c)"
      "shape_of (snd (snd psi)) = Some (a, b, c + 1)"
  shows "shape_of (limited_flux AX (Ok (bnd phi W)) (Ok (val phi)) (Ok (bnd phi E))
           (u_fac F) (flow_we G) (flow_ew G) dt (del_x F) (fst psi) (d_x G)) = Some (a + 1, b, c)"
    "shape_of (limited_flux AY (Ok (bnd phi S)) (Ok (val phi)) (Ok (bnd phi N))
           (v_fac F) (flow_sn G) (flow_ns G) dt (del_y F) (fst (snd psi)) (d_y G)) = Some (a, b + 1, c)"
    "shape_of (limited_flux AZ (Ok (bnd phi B)) (Ok (val phi)) (Ok (bnd phi T))
           (w_fac F) (flow_bt G) (flow_tb G) dt (del_z F) (snd (snd psi)) (d_z G)) = Some (a, b, c + 1)"
    "shape_of (upwind_flux AX (Ok (bnd phi W)) (Ok (val phi)) (Ok (bnd phi E))
           (u_fac F) (flow_we G) (flow_ew G)) = Some (a + 1, b, c)"
    "shape_of (upwind_flux AY (Ok (bnd phi S)) (Ok (val phi)) (Ok (bnd phi N))
           (v_fac F) (flow_sn G) (flow_ns G)) = Some (a, b + 1, c)"
    "shape_of (upwind_flux AZ (Ok (bnd phi B)) (Ok (val phi)) (Ok (bnd phi T))
           (w_fac F) (flow_bt G) (flow_tb G)) = Some (a, b, c + 1)"
  using F G donor_shapes[OF phi] d_slices[OF G] psi
  by (auto intro!: shape_limited_flux shape_upwind_flux simp: faces_ok_def grads_ok_def)

lemma area_shapes:
  assumes F: "faces_ok a b c F"
  shows "shape_of (rho_x_fac F * a_x_fac F) = Some (a + 1, b, c)"
    "shape_of (rho_y_fac F * a_y_fac F) = Some (a, b + 1, c)"
    "shape_of (rho_z_fac F * a_z_fac F) = Some (a, b, c + 1)"
  using F by (simp_all add: faces_ok_def shape_arith)

lemma c_lim_of_eq:
  assumes F: "faces_ok a b c F" and G: "grads_ok a b c G" and phi: "wf_field a b c phi"
    and psi: "shape_of (fst psi) = Some (a + 1, b, c)" "shape_of (fst (snd psi)) = Some (a, b + 1, c)"
      "shape_of (snd (snd psi)) = Some (a, b, c + 1)"
  shows "c_lim_of phi dt F G psi k = k (c_lim_res phi dt F G psi)"
    and "shape_of (c_lim_res phi dt F G psi) = Some (a, b, c)"
proof -
  note fs = flux_shapes(1-3)[OF F G phi psi, of dt] and ar = area_shapes[OF F]
  have ip: "shape_of (inplace (*) (limited_flux AX (Ok (bnd phi W)) (Ok (val phi)) (Ok (bnd phi E))
           (u_fac F) (flow_we G) (flow_ew G) dt (del_x F) (fst psi) (d_x G))
           (rho_x_fac F * a_x_fac F)) = Some (a + 1, b, c)"
    "shape_of (inplace (*) (limited_flux AY (Ok (bnd phi S)) (Ok (val phi)) (Ok (bnd phi N))
           (v_fac F) (flow_sn G) (flow_ns G) dt (del_y F) (fst (snd psi)) (d_y G))
           (rho_y_fac F * a_y_fac F)) = Some (a, b + 1, c)"
    "shape_of (inplace (*) (limited_flux AZ (Ok (bnd phi B)) (Ok (val phi)) (Ok (bnd phi T))
           (w_fac F) (flow_bt G) (flow_tb G) dt (del_z F) (snd (snd psi)) (d_z G))
           (rho_z_fac F * a_z_fac F)) = Some (a, b, c + 1)"
    using fs ar by (simp_all add: shape_inplace)
  show s: "shape_of (c_lim_res phi dt F G psi) = Some (a, b, c)"
    unfolding c_lim_res_def using ip by (simp add: shape_of_dif shape_arith)
  show "c_lim_of phi dt F G psi k = k (c_lim_res phi dt F G psi)"
    using s unfolding c_lim_res_def c_lim_of_def
    by (simp add: case_prod_beta sthen_ok fs ip)
qed

lemma c_upw_of_eq:
  assumes F: "faces_ok a b c F" and G: "grads_ok a b c G" and phi: "wf_field a b c phi"
  shows "c_upw_of phi F G k = k (c_upw_res phi F G)"
    and "shape_of (c_upw_res phi F G) = Some (a, b, c)"
proof -
  have psi: "shape_of (fst (r_x G, r_y G, r_z G)) = Some (a + 1, b, c)"
    "shape_of (fst (snd (r_x G, r_y G, r_z G))) = Some (a, b + 1, c)"
    "shape_of (snd (snd (r_x G, r_y G, r_z G))) = Some (a, b, c + 1)"
    using G by (simp_all add: grads_ok_def)
  note fs = flux_shapes(4-6)[OF F G phi psi] and ar = area_shapes[OF F]
  have ip: "shape_of (inplace (*) (upwind_flux AX (Ok (bnd phi W)) (Ok (val phi)) (Ok (bnd phi E))
           (u_fac F) (flow_we G) (flow_ew G))
           (rho_x_fac F * a_x_fac F)) = Some (a + 1, b, c)"
    "shape_of (inplace (*) (upwind_flux AY (Ok (bnd phi S)) (Ok (val phi)) (Ok (bnd phi N))
           (v_fac F) (flow_sn G) (flow_ns G))
           (rho_y_fac F * a_y_fac F)) = Some (a, b + 1, c)"
    "shape_of (inplace (*) (upwind_flux AZ (Ok (bnd phi B)) (Ok (val phi)) (Ok (bnd phi T))
           (w_fac F) (flow_bt G) (flow_tb G))
           (rho_z_fac F * a_z_fac F)) = Some (a, b, c + 1)"
    using fs ar by (simp_all add: shape_inplace)
  show s: "shape_of (c_upw_res phi F G) = Some (a, b, c)"
    unfolding c_upw_res_def using ip by (simp add: shape_of_dif shape_arith)
  show "c_upw_of phi F G k = k (c_upw_res phi F G)"
    using s unfolding c_upw_res_def c_upw_of_def
    by (simp add: sthen_ok fs ip)
qed

lemma c_lim_upwind:
  assumes F: "faces_ok a b c F" and G: "grads_ok a b c G" and phi: "wf_field a b c phi"
  shows "c_lim_res phi dt F G (psi_upwind (r_x G), psi_upwind (r_y G), psi_upwind (r_z G))
           = c_upw_res phi F G"
  unfolding c_lim_res_def c_upw_res_def fst_conv snd_conv
  using F G donor_shapes[OF phi] d_slices[OF G]
  by (simp add: limited_upwind[where s = "(a + 1, b, c)"] limited_upwind[where s = "(a, b + 1, c)"]
      limited_upwind[where s = "(a, b, c + 1)"] faces_ok_def grads_ok_def)

section \<open>Explicit mode and matrix mode\<close>

lemma advection_unfold:
  assumes wf: "wf_inputs exchange rho phi uvwf dxyz"
    and F: "faces_of exchange rho phi uvwf dxyz = Inr F"
    and G: "slopes TINY (pos phi) (per phi) (exchange phi) F = Inr G"
    and P: "apply_limiter limiter (r_x G) (r_y G) (r_z G) = Inr psi"
  shows "advection exchange TINY rho phi uvwf dxyz dt limiter M =
     c_lim_of (exchange phi) dt F G psi (\<lambda>c_lim.
       if M \<noteq> None then
         fill_matrix (the M) F G (\<lambda>m.
         c_upw_of (exchange phi) F G (\<lambda>c_upw.
         athen (c_lim - c_upw) (\<lambda>c. Inr (exchanged exchange phi uvwf (Some m), c))))
       else athen c_lim (\<lambda>c. Inr (exchanged exchange phi uvwf None, c)))"
proof -
  obtain uf vf wf' where uvwf: "uvwf = (uf, vf, wf')" by (cases uvwf) auto
  obtain dx dy dz where dxyz: "dxyz = (dx, dy, dz)" by (cases dxyz) auto
  obtain n m l where sh: "shape rho = (n, m, l)" by (cases "shape rho") auto
  from wf sh have d: "shape dx = (n, m, l)" "shape dy = (n, m, l)" "shape dz = (n, m, l)"
    by (simp_all add: wf_inputs_def uvwf dxyz)
  have s: "shape_of (Ok dx) = Some (n, m, l)"
    "shape_of (Ok dy) = Some (n, m, l)" "shape_of (Ok dz) = Some (n, m, l)"
    using d by (simp_all add: shape_of_Ok')
  have ss: "shape_of (Ok dy * Ok dz) \<noteq> None" "shape_of (Ok dx * Ok dz) \<noteq> None"
    "shape_of (Ok dx * Ok dy) \<noteq> None"
    using s by (simp_all add: shape_arith)
  from F have F': "reconstruct (pos phi) (per phi) (Ok rho) (Ok dy * Ok dz) (Ok dx * Ok dz)
      (Ok dx * Ok dy) (Ok dx) (Ok dy) (Ok dz) (exchange uf) (exchange vf) (exchange wf') = Inr F"
    by (simp add: faces_of_def uvwf dxyz)
  show ?thesis
    unfolding advection_def uvwf dxyz
    by (simp add: sthen_ok ss Let_def F' G P exchanged_def cong: if_cong)
qed

lemma band_shapes:
  assumes "wf_matrix a b c M"
  shows "shape_of (Ok (band_C M)) = Some (a, b, c)" "shape_of (Ok (band_W M)) = Some (a, b, c)"
    "shape_of (Ok (band_E M)) = Some (a, b, c)" "shape_of (Ok (band_S M)) = Some (a, b, c)"
    "shape_of (Ok (band_N M)) = Some (a, b, c)" "shape_of (Ok (band_B M)) = Some (a, b, c)"
    "shape_of (Ok (band_T M)) = Some (a, b, c)"
  using assms by (simp_all add: wf_matrix_def shape_of_Ok')

lemma shape_mass_flow:
  "shape_of u = Some s \<Longrightarrow> shape_of f = Some s \<Longrightarrow> shape_of r = Some s \<Longrightarrow>
   shape_of a = Some s \<Longrightarrow> shape_of (mass_flow u f r a) = Some s"
  by (simp add: mass_flow_def shape_arith)

lemma shape_new_bands:
  assumes "shape_of u = Some s" "shape_of fp = Some s" "shape_of fn = Some s"
    "shape_of rf = Some s" "shape_of af = Some s"
    and "s = (case ax of AX \<Rightarrow> (a + 1, b, c) | AY \<Rightarrow> (a, b + 1, c) | AZ \<Rightarrow> (a, b, c + 1))"
  shows "shape_of lower = Some (a, b, c) \<Longrightarrow>
           shape_of (new_lower ax lower u fp rf af) = Some (a, b, c)"
    "shape_of upper = Some (a, b, c) \<Longrightarrow>
           shape_of (new_upper ax upper u fn rf af) = Some (a, b, c)"
    "shape_of centre = Some (a, b, c) \<Longrightarrow>
           shape_of (new_centre ax centre u fp fn rf af) = Some (a, b, c)"
  using shape_mass_flow[OF assms(1,2,4,5)] shape_mass_flow[OF assms(1,3,4,5)] assms(6)
  by (cases ax; simp add: new_lower_def new_upper_def new_centre_def shape_inplace shp)+

lemma fill_bands_eq:
  assumes "shape_of (new_lower ax lower u fp rf af) \<noteq> None"
    "shape_of (new_upper ax upper u fn rf af) \<noteq> None"
    "shape_of (new_centre ax centre u fp fn rf af) \<noteq> None"
  shows "fill_bands ax lower upper centre u fp fn rf af k =
     k (new_lower ax lower u fp rf af) (new_upper ax upper u fn rf af)
       (new_centre ax centre u fp fn rf af)"
  using assms unfolding fill_bands_def new_lower_def new_upper_def new_centre_def
  by (simp add: sthen_ok)


lemma fill_matrix_eq:
  assumes F: "faces_ok a b c F" and G: "grads_ok a b c G" and M: "wf_matrix a b c M"
  shows "fill_matrix M F G k = k (filled_matrix M F G)"
    and "wf_matrix a b c (filled_matrix M F G)"
proof -
  note b = band_shapes[OF M]
  from F G have x: "shape_of (u_fac F) = Some (a + 1, b, c)"
    "shape_of (flow_we G) = Some (a + 1, b, c)" "shape_of (flow_ew G) = Some (a + 1, b, c)"
    "shape_of (rho_x_fac F) = Some (a + 1, b, c)" "shape_of (a_x_fac F) = Some (a + 1, b, c)"
    and y: "shape_of (v_fac F) = Some (a, b + 1, c)"
    "shape_of (flow_sn G) = Some (a, b + 1, c)" "shape_of (flow_ns G) = Some (a, b + 1, c)"
    "shape_of (rho_y_fac F) = Some (a, b + 1, c)" "shape_of (a_y_fac F) = Some (a, b + 1, c)"
    and z: "shape_of (w_fac F) = Some (a, b, c + 1)"
    "shape_of (flow_bt G) = Some (a, b, c + 1)" "shape_of (flow_tb G) = Some (a, b, c + 1)"
    "shape_of (rho_z_fac F) = Some (a, b, c + 1)" "shape_of (a_z_fac F) = Some (a, b, c + 1)"
    by (simp_all add: faces_ok_def grads_ok_def)
  note nx = shape_new_bands[OF x, where ax = AX and a = a and b = b and c = c, simplified]
    and ny = shape_new_bands[OF y, where ax = AY and a = a and b = b and c = c, simplified]
    and nz = shape_new_bands[OF z, where ax = AZ and a = a and b = b and c = c, simplified]
  let ?cx = "new_centre AX (Ok (band_C M)) (u_fac F) (flow_we G) (flow_ew G)
               (rho_x_fac F) (a_x_fac F)"
  let ?cy = "new_centre AY ?cx (v_fac F) (flow_sn G) (flow_ns G) (rho_y_fac F) (a_y_fac F)"
  let ?cz = "new_centre AZ ?cy (w_fac F) (flow_bt G) (flow_tb G) (rho_z_fac F) (a_z_fac F)"
  have c: "shape_of ?cx = Some (a, b, c)" "shape_of ?cy = Some (a, b, c)"
    "shape_of ?cz = Some (a, b, c)"
    using nx(3) ny(3) nz(3) b(1) by simp_all
  have w: "shape_of (new_lower AX (Ok (band_W M)) (u_fac F) (flow_we G) (rho_x_fac F) (a_x_fac F))
             = Some (a, b, c)"
    "shape_of (new_upper AX (Ok (band_E M)) (u_fac F) (flow_ew G) (rho_x_fac F) (a_x_fac F))
             = Some (a, b, c)"
    "shape_of (new_lower AY (Ok (band_S M)) (v_fac F) (flow_sn G) (rho_y_fac F) (a_y_fac F))
             = Some (a, b, c)"
    "shape_of (new_upper AY (Ok (band_N M)) (v_fac F) (flow_ns G) (rho_y_fac F) (a_y_fac F))
             = Some (a, b, c)"
    "shape_of (new_lower AZ (Ok (band_B M)) (w_fac F) (flow_bt G) (rho_z_fac F) (a_z_fac F))
             = Some (a, b, c)"
    "shape_of (new_upper AZ (Ok (band_T M)) (w_fac F) (flow_tb G) (rho_z_fac F) (a_z_fac F))
             = Some (a, b, c)"
    using nx(1,2) ny(1,2) nz(1,2) b by simp_all
  show "fill_matrix M F G k = k (filled_matrix M F G)"
    unfolding fill_matrix_def filled_matrix_def
    by (simp add: fill_bands_eq athen_ok c w)
  show "wf_matrix a b c (filled_matrix M F G)"
    unfolding wf_matrix_def filled_matrix_def
    by (simp add: shape_arr_of c w)
qed

text \<open>
  C5. With the upwind limiter the limited flux divergence is the upwind flux divergence:
  for well-shaped arguments the array that the explicit mode returns is the array that
  lines 400-415, the upwind part of the matrix mode, compute from the same face arrays
  and gradients.
\<close>

theorem upwind_limiter_is_upwind:
  assumes "wf_inputs exchange rho phi uvwf dxyz" and "pos phi \<noteq> Unsupported"
  shows "\<exists>F G c. faces_of exchange rho phi uvwf dxyz = Inr F \<and>
           slopes TINY (pos phi) (per phi) (exchange phi) F = Inr G \<and>
           advection exchange TINY rho phi uvwf dxyz dt ''upwind'' None
             = Inr (exchanged exchange phi uvwf None, c) \<and>
           c_upw_of (exchange phi) F G (\<lambda>c_upw. athen c_upw Inr) = Inr c"
proof -
  obtain n m l where sh: "shape rho = (n, m, l)" by (cases "shape rho") auto
  obtain a b c where vs: "val_shape (pos phi) n m l = (a, b, c)"
    by (cases "val_shape (pos phi) n m l") auto
  from locals_ok[OF assms sh vs, of TINY] obtain F G
    where F: "faces_of exchange rho phi uvwf dxyz = Inr F" "faces_ok a b c F"
      and G: "slopes TINY (pos phi) (per phi) (exchange phi) F = Inr G" "grads_ok a b c G"
    by blast
  note phi = wf_inputs_field(1)[OF assms(1) sh vs]
  from G(2) have r: "shape_of (r_x G) = Some (a + 1, b, c)" "shape_of (r_y G) = Some (a, b + 1, c)"
    "shape_of (r_z G) = Some (a, b, c + 1)"
    by (simp_all add: grads_ok_def)
  have P: "apply_limiter ''upwind'' (r_x G) (r_y G) (r_z G)
             = Inr (psi_upwind (r_x G), psi_upwind (r_y G), psi_upwind (r_z G))"
    using r by (intro apply_limiter_upwind) simp_all
  have u: "c_upw_of (exchange phi) F G k = k (c_upw_res (exchange phi) F G)" for k :: "res \<Rightarrow> error + arr"
    by (rule c_upw_of_eq(1)[OF F(2) G(2) phi])
  have us: "shape_of (c_upw_res (exchange phi) F G) = Some (a, b, c)"
    by (rule c_upw_of_eq(2)[OF F(2) G(2) phi])
  have l: "c_lim_of (exchange phi) dt F G
             (psi_upwind (r_x G), psi_upwind (r_y G), psi_upwind (r_z G)) k
           = k (c_upw_res (exchange phi) F G)" for k :: "res \<Rightarrow> error + state \<times> arr"
    using c_lim_of_eq(1)[OF F(2) G(2) phi, of "(psi_upwind (r_x G), psi_upwind (r_y G), psi_upwind (r_z G))" dt k]
      c_lim_upwind[OF F(2) G(2) phi, of dt] r
    by (simp add: shape_of_psi)
  have "advection exchange TINY rho phi uvwf dxyz dt ''upwind'' None
          = Inr (exchanged exchange phi uvwf None, arr_of (c_upw_res (exchange phi) F G))"
    unfolding advection_unfold[OF assms(1) F(1) G(1) P] l
    using us by (simp add: athen_ok)
  moreover have "c_upw_of (exchange phi) F G (\<lambda>c_upw. athen c_upw Inr)
          = Inr (arr_of (c_upw_res (exchange phi) F G))"
    unfolding u using us by (simp add: athen_ok)
  ultimately show ?thesis using F(1) G(1) by blast
qed

theorem upwind_limiter_is_upwind_witness:
  "wf_inputs id grid0 phi0 uvwf0 (grid0, grid0, grid0) \<and> pos phi0 \<noteq> Unsupported \<and>
   (\<exists>F G c. faces_of id grid0 phi0 uvwf0 (grid0, grid0, grid0) = Inr F \<and>
      slopes (1 / 1000) (pos phi0) (per phi0) phi0 F = Inr G \<and>
      advection id (1 / 1000) grid0 phi0 uvwf0 (grid0, grid0, grid0) (1 / 10) ''upwind'' None
        = Inr (exchanged id phi0 uvwf0 None, c) \<and>
      c_upw_of phi0 F G (\<lambda>c_upw. athen c_upw Inr) = Inr c)"
proof -
  have p: "pos phi0 \<noteq> Unsupported" by (simp add: wf0)
  from upwind_limiter_is_upwind[OF wf0(1) p, of "1 / 1000" "1 / 10"] wf0(1) p
  show ?thesis by auto
qed



lemma matrix_mode:
  assumes wf: "wf_inputs exchange rho phi uvwf dxyz"
    and F: "faces_of exchange rho phi uvwf dxyz = Inr F" "faces_ok a b c F"
    and G: "slopes TINY (pos phi) (per phi) (exchange phi) F = Inr G" "grads_ok a b c G"
    and phi: "wf_field a b c (exchange phi)"
    and P: "apply_limiter limiter (r_x G) (r_y G) (r_z G) = Inr psi"
    and psi: "shape_of (fst psi) = Some (a + 1, b, c)" "shape_of (fst (snd psi)) = Some (a, b + 1, c)"
      "shape_of (snd (snd psi)) = Some (a, b, c + 1)"
    and M: "wf_matrix a b c M"
  shows "advection exchange TINY rho phi uvwf dxyz dt limiter (Some M)
           = Inr (exchanged exchange phi uvwf (Some (filled_matrix M F G)),
                  arr_of (c_lim_res (exchange phi) dt F G psi - c_upw_res (exchange phi) F G))"
proof -
  have "shape_of (c_lim_res (exchange phi) dt F G psi - c_upw_res (exchange phi) F G)
          = Some (a, b, c)"
    using c_lim_of_eq(2)[OF F(2) G(2) phi psi, of dt] c_upw_of_eq(2)[OF F(2) G(2) phi]
    by (simp add: shape_arith)
  then show ?thesis
    unfolding advection_unfold[OF wf F(1) G(1) P] c_lim_of_eq(1)[OF F(2) G(2) phi psi]
    by (simp add: fill_matrix_eq(1)[OF F(2) G(2) M] c_upw_of_eq(1)[OF F(2) G(2) phi] athen_ok)
qed

lemma wf_field_val: "wf_field a b c u \<Longrightarrow> shape (val u) = (a, b, c)"
  by (simp add: wf_field_def)



section \<open>Unknown limiter names and unsupported placements\<close>

lemma lift2_Err [simp]:
  "lift2 f (Err e) y = Err e"
  "shape_of x \<noteq> None \<Longrightarrow> lift2 f x (Err e) = Err e"
  by (cases x; simp add: lift2_def)+

lemma arith_Err:
  "Err e + y = Err e" "Err e * y = Err e" "Err e - y = Err e" "Err e / y = Err e"
  "shape_of x \<noteq> None \<Longrightarrow> x + Err e = Err e"
  "shape_of x \<noteq> None \<Longrightarrow> x * Err e = Err e"
  by (simp_all add: plus_res_def times_res_def minus_res_def divide_res_def)

lemma lift1_Err [simp]: "lift1 f (Err e) = Err e"
  by (simp add: lift1_def)

lemma sthen_Err [simp]: "sthen (Err e) f = Inl e"
  by (simp add: sthen_def)

lemma limited_flux_unbound:
  assumes "shape_of (cat ax [lo, v]) = Some s" "shape_of (cat ax [v, hi]) = Some s"
    "shape_of u = Some s" "shape_of fp = Some s" "shape_of fn = Some s" "shape_of del = Some s"
  shows "limited_flux ax lo v hi u fp fn dt del (Err e) d = Err e"
proof -
  have U: "shape_of (upwind_flux ax lo v hi u fp fn) \<noteq> None"
    using shape_upwind_flux[OF assms(1-5)] by simp
  have K: "shape_of (sc 0.5 * abs u * (sc 1 - abs u * sc dt / del)) \<noteq> None"
    using assms(3,6) by (simp add: shape_arith)
  show ?thesis
    unfolding limited_flux_split using U K by (simp add: whole_def arith_Err)
qed

lemma unknown_limiter:
  assumes "limiter \<notin> {''upwind'', ''minmod'', ''superbee'', ''koren''}"
  shows "apply_limiter limiter rx ry rz = Inr (unbound ''psi_x'', unbound ''psi_y'', unbound ''psi_z'')"
  using assms by (simp add: apply_limiter_def)

lemma slopes_unbound:
  assumes phi: "wf_field a b c phi" and sz: "3 \<le> a" "3 \<le> b" "3 \<le> c"
    and u: "u_fac F = Err e"
  shows "slopes TINY ps pr phi F = Inl e"
proof -
  note dx = shape_consecutive(1)[OF phi, of "ps = X" "pr X"]
    and dy = shape_consecutive(2)[OF phi, of "ps = Y" "pr Y"]
    and dz = shape_consecutive(3)[OF phi, of "ps = Z" "pr Z"]
  show ?thesis
    unfolding slopes_def
    using sz
    apply -
    apply (rule sthen_wp'[where t = "(a + 3, b, c)"], simp add: dx)
    apply (rule sthen_wp'[where t = "(a, b + 3, c)"], simp add: dy)
    apply (rule sthen_wp'[where t = "(a, b, c + 3)"], simp add: dz)
    apply (rule sthen_wp'[where t = "(a + 1, b, c)"], simp add: shp)
    apply (rule sthen_wp'[where t = "(a + 1, b, c)"], simp add: shp)
    apply (rule sthen_wp'[where t = "(a, b + 1, c)"], simp add: shp)
    apply (rule sthen_wp'[where t = "(a, b + 1, c)"], simp add: shp)
    apply (rule sthen_wp'[where t = "(a, b, c + 1)"], simp add: shp)
    apply (rule sthen_wp'[where t = "(a, b, c + 1)"], simp add: shp)
    apply (simp add: u ge0_def)
    done
qed

text \<open>
  C2, as amended. \<open>advection\<close> does not check the limiter name or the placement tag.
  For well-shaped arguments an unknown limiter name ends the call with
  UnboundLocalError for \<open>psi_x\<close>, raised when the limited flux along x is assembled, and
  an unsupported placement tag ends it with UnboundLocalError for \<open>u_fac\<close>, raised when
  the first flow mask is computed; in both cases the array work before that point has
  run.
\<close>

theorem unchecked_configuration_fails_late:
  assumes "wf_inputs exchange rho phi uvwf dxyz"
  shows "(pos phi \<noteq> Unsupported \<and> limiter \<notin> {''upwind'', ''minmod'', ''superbee'', ''koren''} \<longrightarrow>
            advection exchange TINY rho phi uvwf dxyz dt limiter M
              = Inl (UnboundLocalError ''psi_x'')) \<and>
         (pos phi = Unsupported \<longrightarrow>
            advection exchange TINY rho phi uvwf dxyz dt limiter M
              = Inl (UnboundLocalError ''u_fac''))"
proof (intro conjI impI)
  obtain n m l where sh: "shape rho = (n, m, l)" by (cases "shape rho") auto
  obtain a b c where vs: "val_shape (pos phi) n m l = (a, b, c)"
    by (cases "val_shape (pos phi) n m l") auto
  note phi = wf_inputs_field[OF assms sh vs]
  {
    assume h: "pos phi \<noteq> Unsupported \<and> limiter \<notin> {''upwind'', ''minmod'', ''superbee'', ''koren''}"
    from locals_ok[OF assms _ sh vs, of TINY] h obtain F G
      where F: "faces_of exchange rho phi uvwf dxyz = Inr F" "faces_ok a b c F"
        and G: "slopes TINY (pos phi) (per phi) (exchange phi) F = Inr G" "grads_ok a b c G"
      by blast
    from h have P: "apply_limiter limiter (r_x G) (r_y G) (r_z G)
        = Inr (unbound ''psi_x'', unbound ''psi_y'', unbound ''psi_z'')"
      by (intro unknown_limiter) simp
    have "limited_flux AX (Ok (bnd (exchange phi) W)) (Ok (val (exchange phi)))
            (Ok (bnd (exchange phi) E)) (u_fac F) (flow_we G) (flow_ew G) dt (del_x F)
            (Err (UnboundLocalError ''psi_x'')) (d_x G) = Err (UnboundLocalError ''psi_x'')"
      using donor_shapes(1,2)[OF phi(1)] F(2) G(2)
      by (intro limited_flux_unbound[where s = "(a + 1, b, c)"])
        (simp_all add: faces_ok_def grads_ok_def)
    then show "advection exchange TINY rho phi uvwf dxyz dt limiter M
              = Inl (UnboundLocalError ''psi_x'')"
      unfolding advection_unfold[OF assms F(1) G(1) P] c_lim_of_def
      by (simp add: unbound_def)
  }
  {
    assume h: "pos phi = Unsupported"
    obtain uf vf wf' where uvwf: "uvwf = (uf, vf, wf')" by (cases uvwf) auto
    obtain dx dy dz where dxyz: "dxyz = (dx, dy, dz)" by (cases dxyz) auto
    from assms sh have d: "shape dx = (n, m, l)" "shape dy = (n, m, l)" "shape dz = (n, m, l)"
      by (simp_all add: wf_inputs_def uvwf dxyz)
    have s: "shape_of (Ok dx) = Some (n, m, l)"
      "shape_of (Ok dy) = Some (n, m, l)" "shape_of (Ok dz) = Some (n, m, l)"
      using d by (simp_all add: shape_of_Ok')
    have ss: "shape_of (Ok dy * Ok dz) \<noteq> None" "shape_of (Ok dx * Ok dz) \<noteq> None"
      "shape_of (Ok dx * Ok dy) \<noteq> None"
      using s by (simp_all add: shape_arith)
    from vs h have "a = n" "b = m" "c = l" by (simp_all add: val_shape_def)
    with phi have sz: "3 \<le> a" "3 \<le> b" "3 \<le> c" by simp_all
    have "slopes TINY Unsupported (per phi) (exchange phi) F = Inl (UnboundLocalError ''u_fac'')"
      if "u_fac F = unbound ''u_fac''" for F
      using slopes_unbound[OF phi(1) sz, of F] that by (simp add: unbound_def)
    then show "advection exchange TINY rho phi uvwf dxyz dt limiter M
              = Inl (UnboundLocalError ''u_fac'')"
      unfolding advection_def uvwf dxyz
      by (simp add: sthen_ok ss Let_def h reconstruct_def ethen_def)
  }
qed


theorem unchecked_configuration_fails_late_witness:
  "wf_inputs id grid0 phi0 uvwf0 (grid0, grid0, grid0) \<and>
   pos phi0 \<noteq> Unsupported \<and> ''lax'' \<notin> {''upwind'', ''minmod'', ''superbee'', ''koren''} \<and>
   advection id (1 / 1000) grid0 phi0 uvwf0 (grid0, grid0, grid0) (1 / 10) ''lax'' None
     = Inl (UnboundLocalError ''psi_x'') \<and>
   wf_inputs id grid0 (field_of Unsupported False grid0 1) uvwf0 (grid0, grid0, grid0) \<and>
   pos (field_of Unsupported False grid0 1) = Unsupported \<and>
   advection id (1 / 1000) grid0 (field_of Unsupported False grid0 1) uvwf0
     (grid0, grid0, grid0) (1 / 10) ''minmod'' None = Inl (UnboundLocalError ''u_fac'')"
proof -
  have p: "pos phi0 \<noteq> Unsupported \<and> ''lax'' \<notin> {''upwind'', ''minmod'', ''superbee'', ''koren''}"
    by (simp add: wf0)
  have w: "wf_inputs id grid0 (field_of Unsupported False grid0 1) uvwf0 (grid0, grid0, grid0)"
    by (simp add: wf_inputs_def grid0_def uvwf0_def field_of_def cst_def
        shape_def val_shape_def wf_field_def)
  have q: "pos (field_of Unsupported False grid0 1) = Unsupported"
    by (simp add: field_of_def)
  from unchecked_configuration_fails_late[OF wf0(1), of "''lax''" "1 / 1000" "1 / 10" None]
    unchecked_configuration_fails_late[OF w, of "''minmod''" "1 / 1000" "1 / 10" None]
    wf0(1) p w q
  show ?thesis by simp
qed

text \<open>
  C2 as stated fails: with an unknown limiter name and cell dimensions \<open>dy\<close> and \<open>dz\<close>
  of different shapes the call ends with the ValueError of the product \<open>dy * dz\<close> of
  line 46, so array work has begun before the limiter name is looked at.
\<close>

theorem configuration_checked_first_counterexample:
  "''lax'' \<notin> {''upwind'', ''minmod'', ''superbee'', ''koren''} \<and>
   advection id (1 / 1000) grid0 phi0 uvwf0 (grid0, cst 2 3 3 1, grid0) (1 / 10) ''lax'' None
     = Inl ValueError"
  by (simp add: advection_def uvwf0_def grid0_def cst_def times_res_def lift2_def bdim_def)

section \<open>The bands of the matrix\<close>

lemma dim_of_shape:
  "shape_of x = Some (n, m, l) \<Longrightarrow> dim_of AX x = n"
  "shape_of x = Some (n, m, l) \<Longrightarrow> dim_of AY x = m"
  "shape_of x = Some (n, m, l) \<Longrightarrow> dim_of AZ x = l"
  by (simp_all add: dim_of_def)

lemma elt_new_bands:
  assumes mp: "shape_of (mass_flow u fp rf af) = Some s"
    and mn: "shape_of (mass_flow u fn rf af) = Some s"
    and s: "s = (case ax of AX \<Rightarrow> (a + 1, b, c) | AY \<Rightarrow> (a, b + 1, c) | AZ \<Rightarrow> (a, b, c + 1))"
  shows "shape_of lower = Some (a, b, c) \<Longrightarrow>
      elt (new_lower ax lower u fp rf af) i j k
        = elt lower i j k + elt (mass_flow u fp rf af) i j k"
    "shape_of upper = Some (a, b, c) \<Longrightarrow>
      elt (new_upper ax upper u fn rf af) i j k
        = elt upper i j k - (case ax of
            AX \<Rightarrow> elt (mass_flow u fn rf af) (i + 1) j k
          | AY \<Rightarrow> elt (mass_flow u fn rf af) i (j + 1) k
          | AZ \<Rightarrow> elt (mass_flow u fn rf af) i j (k + 1))"
    "shape_of centre = Some (a, b, c) \<Longrightarrow>
      elt (new_centre ax centre u fp fn rf af) i j k
        = elt centre i j k + (elt (mass_flow u fp rf af) i j k - (case ax of
            AX \<Rightarrow> elt (mass_flow u fn rf af) (i + 1) j k
          | AY \<Rightarrow> elt (mass_flow u fn rf af) i (j + 1) k
          | AZ \<Rightarrow> elt (mass_flow u fn rf af) i j (k + 1)))"
  using mp mn s
  by (cases ax; simp add: new_lower_def new_upper_def new_centre_def elt_inplace shape_inplace
      elt_arith shape_arith shp elt_sl dim_of_def)+


lemma filled_matrix_bands:
  assumes F: "faces_ok a b c F" and G: "grads_ok a b c G" and M: "wf_matrix a b c M"
  shows "upwind_bands M (filled_matrix M F G) F G"
proof -
  note b = band_shapes[OF M]
  from F G have x: "shape_of (u_fac F) = Some (a + 1, b, c)"
    "shape_of (flow_we G) = Some (a + 1, b, c)" "shape_of (flow_ew G) = Some (a + 1, b, c)"
    "shape_of (rho_x_fac F) = Some (a + 1, b, c)" "shape_of (a_x_fac F) = Some (a + 1, b, c)"
    and y: "shape_of (v_fac F) = Some (a, b + 1, c)"
    "shape_of (flow_sn G) = Some (a, b + 1, c)" "shape_of (flow_ns G) = Some (a, b + 1, c)"
    "shape_of (rho_y_fac F) = Some (a, b + 1, c)" "shape_of (a_y_fac F) = Some (a, b + 1, c)"
    and z: "shape_of (w_fac F) = Some (a, b, c + 1)"
    "shape_of (flow_bt G) = Some (a, b, c + 1)" "shape_of (flow_tb G) = Some (a, b, c + 1)"
    "shape_of (rho_z_fac F) = Some (a, b, c + 1)" "shape_of (a_z_fac F) = Some (a, b, c + 1)"
    by (simp_all add: faces_ok_def grads_ok_def)
  note sx = shape_new_bands[OF x, where ax = AX and a = a and b = b and c = c, simplified]
    and sy = shape_new_bands[OF y, where ax = AY and a = a and b = b and c = c, simplified]
  note ex = elt_new_bands[OF shape_mass_flow[OF x(1,2,4,5)] shape_mass_flow[OF x(1,3,4,5)],
      where ax = AX and a = a and b = b and c = c, simplified]
    and ey = elt_new_bands[OF shape_mass_flow[OF y(1,2,4,5)] shape_mass_flow[OF y(1,3,4,5)],
      where ax = AY and a = a and b = b and c = c, simplified]
    and ez = elt_new_bands[OF shape_mass_flow[OF z(1,2,4,5)] shape_mass_flow[OF z(1,3,4,5)],
      where ax = AZ and a = a and b = b and c = c, simplified]
  let ?cx = "new_centre AX (Ok (band_C M)) (u_fac F) (flow_we G) (flow_ew G)
               (rho_x_fac F) (a_x_fac F)"
  let ?cy = "new_centre AY ?cx (v_fac F) (flow_sn G) (flow_ns G) (rho_y_fac F) (a_y_fac F)"
  have c: "shape_of ?cx = Some (a, b, c)" "shape_of ?cy = Some (a, b, c)"
    using sx(3) sy(3) b(1) by simp_all
  show ?thesis
    unfolding upwind_bands_def filled_matrix_def
    by (simp add: el_arr_of ex(1,2)[OF b(2)] ex(1,2)[OF b(3)] ey(1,2)[OF b(4)] ey(1,2)[OF b(5)]
        ez(1,2)[OF b(6)] ez(1,2)[OF b(7)] ez(3)[OF c(2)] ey(3)[OF c(1)] ex(3)[OF b(1)])
qed

text \<open>
  C3, as amended. In matrix mode, for well-shaped arguments, each face's upwind mass
  flow is added with the same sign to the neighbour band of the cell on its downstream
  side and to the centre band of that cell: the centre coefficient of every cell grows
  by the sum of what its six neighbour coefficients grow by, so the centre minus the
  neighbours is unchanged.
\<close>

theorem centre_grows_with_neighbours:
  assumes "wf_inputs exchange rho phi uvwf dxyz" and "pos phi \<noteq> Unsupported"
    and "limiter \<in> {''upwind'', ''minmod'', ''superbee'', ''koren''}"
    and "shape (val (exchange phi)) = (a, b, c)" and "wf_matrix a b c M"
  shows "\<exists>F G M' r. faces_of exchange rho phi uvwf dxyz = Inr F \<and>
           slopes TINY (pos phi) (per phi) (exchange phi) F = Inr G \<and>
           advection exchange TINY rho phi uvwf dxyz dt limiter (Some M)
             = Inr (exchanged exchange phi uvwf (Some M'), r) \<and>
           upwind_bands M M' F G"
proof -
  obtain n m l where sh: "shape rho = (n, m, l)" by (cases "shape rho") auto
  obtain a' b' c' where vs': "val_shape (pos phi) n m l = (a', b', c')"
    by (cases "val_shape (pos phi) n m l") auto
  from wf_field_val[OF wf_inputs_field(1)[OF assms(1) sh vs']] assms(4)
  have "a' = a" "b' = b" "c' = c" by simp_all
  with vs' have vs: "val_shape (pos phi) n m l = (a, b, c)" by simp
  from locals_ok[OF assms(1,2) sh vs, of TINY] obtain F G
    where F: "faces_of exchange rho phi uvwf dxyz = Inr F" "faces_ok a b c F"
      and G: "slopes TINY (pos phi) (per phi) (exchange phi) F = Inr G" "grads_ok a b c G"
    by blast
  note phi = wf_inputs_field(1)[OF assms(1) sh vs]
  from G(2) have r: "shape_of (r_x G) = Some (a + 1, b, c)" "shape_of (r_y G) = Some (a, b + 1, c)"
    "shape_of (r_z G) = Some (a, b, c + 1)"
    by (simp_all add: grads_ok_def)
  from apply_limiter_ok[OF assms(3), of "r_x G" "r_y G" "r_z G"] r obtain psi
    where P: "apply_limiter limiter (r_x G) (r_y G) (r_z G) = Inr psi"
      and psi: "shape_of (fst psi) = Some (a + 1, b, c)"
        "shape_of (fst (snd psi)) = Some (a, b + 1, c)"
        "shape_of (snd (snd psi)) = Some (a, b, c + 1)"
    by auto
  from matrix_mode[OF assms(1) F G phi P psi assms(5), of dt]
    filled_matrix_bands[OF F(2) G(2) assms(5)] F(1) G(1)
  show ?thesis by blast
qed

theorem centre_grows_with_neighbours_witness:
  "wf_inputs id grid0 phi0 uvwf1 (grid0, grid0, grid0) \<and> pos phi0 \<noteq> Unsupported \<and>
   ''upwind'' \<in> {''upwind'', ''minmod'', ''superbee'', ''koren''} \<and>
   shape (val (id phi0)) = (3, 3, 3) \<and> wf_matrix 3 3 3 matrix0 \<and>
   (\<exists>F G M' r. faces_of id grid0 phi0 uvwf1 (grid0, grid0, grid0) = Inr F \<and>
      slopes (1 / 1000) (pos phi0) (per phi0) phi0 F = Inr G \<and>
      advection id (1 / 1000) grid0 phi0 uvwf1 (grid0, grid0, grid0) (1 / 10) ''upwind''
        (Some matrix0) = Inr (exchanged id phi0 uvwf1 (Some M'), r) \<and>
      upwind_bands matrix0 M' F G)"
proof -
  have w: "wf_inputs id grid0 phi0 uvwf1 (grid0, grid0, grid0)"
    by (simp add: wf_inputs_def grid0_def phi0_def uvwf1_def field_of_def cst_def
        shape_def val_shape_def wf_field_def)
  have p: "pos phi0 \<noteq> Unsupported" by (simp add: wf0)
  have l: "''upwind'' \<in> {''upwind'', ''minmod'', ''superbee'', ''koren''}" by simp
  have s: "shape (val (id phi0)) = (3, 3, 3)"
    by (simp add: phi0_def field_of_def shape_def)
  have m: "wf_matrix 3 3 3 matrix0"
    by (simp add: wf_matrix_def matrix0_def cst_def shape_def)
  from centre_grows_with_neighbours[OF w p l s m, of "1 / 1000" "1 / 10"] w p l s m
  show ?thesis by (simp add: id_def)
qed


lemmas model_defs = advection_def sthen_def ethen_def athen_def reconstruct_def faces_C_def
  pad_def dist_def avg_def dif_def periodic_def patch_def sl_def pyslice_def pybound_def
  cat2_def lift2_def lift1_def bdim_def bidx_def slopes_def clamp_def fill_where_def
  consecutive_def ge0_def lnot_def apply_limiter_def psi_upwind_def
  c_lim_of_def limited_flux_def upwind_flux_def whole_def inplace_def fits_def
  fill_matrix_def fill_bands_def mass_flow_def c_upw_of_def sc_def
  times_res_def plus_res_def minus_res_def divide_res_def abs_res_def

lemmas input_defs = grid0_def phi0_def one0_def uvwf0_def uvwf1_def matrix0_def
  field_of_def cst_def Let_def

lemma matrix1_W: "el (band_W matrix1) 1 0 0 = 2"
  by (simp add: matrix1_def matrix_after_def model_defs input_defs)

lemma matrix1_E: "el (band_E matrix1) 0 0 0 = 0"
  by (simp add: matrix1_def matrix_after_def model_defs input_defs)

lemma matrix1_C0: "el (band_C matrix1) 0 0 0 = 0"
  by (simp add: matrix1_def matrix_after_def model_defs input_defs)

lemma matrix1_C1: "el (band_C matrix1) 1 0 0 = 2"
  by (simp add: matrix1_def matrix_after_def model_defs input_defs)

text \<open>
  C3 as stated fails. Start from the zero matrix and let only the x faces between the
  first two layers of cells carry a mass flow, of 2 in the positive direction. The
  values that the call adds to the neighbour and centre coefficients of the two cells
  adjoining such a face sum to 4, twice the mass flow, not to zero.
\<close>

theorem contributions_sum_counterexample:
  "el (band_W matrix1) 1 0 0 + el (band_E matrix1) 0 0 0
     + el (band_C matrix1) 0 0 0 + el (band_C matrix1) 1 0 0 = 4"
  using matrix1_W matrix1_E matrix1_C0 matrix1_C1 by simp

lemma c_one0_0: "el c_one0 0 0 0 = 1"
  by (simp add: c_one0_def returned_def model_defs input_defs)

section \<open>The transport step calc_phi\<close>

lemma shape_zeros [simp]: "shape_of (zeros x) = shape_of x" "shape_of (ones x) = shape_of x"
  by (simp_all add: zeros_def ones_def)


lemma shape_avg_pos:
  assumes "shape_of x = Some (n, m, l)" "ps \<noteq> Unsupported"
  shows "shape_of (avg_pos ps x) = Some (val_shape ps n m l)"
  using assms by (cases ps) (simp_all add: avg_pos_def val_shape_def shape_of_avg)




lemma elt_avg_pos_shape:
  assumes "shape_of x = Some (n, m, l)" "ps \<noteq> Unsupported"
  shows "shape_of (avg_pos ps x) \<noteq> None"
  using shape_avg_pos[OF assms] by simp




end
